theory Spec2Isabelle
  imports Main "HOL-Library.Sublist"
begin

section \<open>JavaScript values, strings and errors\<close>

text \<open>
  The meeting pipeline of the backend: \<open>services/aiService.js\<close> (the four AI stages and
  \<open>processCompleteeMeeting\<close>), \<open>services/taskService.js\<close> (\<open>createTasksFromActionItems\<close>),
  \<open>routes/meetingRoutes.js\<close> (\<open>processAIAnalysis\<close> and the tail of the upload handler) and
  \<open>models/Meeting.js\<close> (\<open>parseParticipants\<close>).

  A JavaScript string is modelled as the list of its code units, restricted to units below
  256. A property that may be missing is a \<open>nullable\<close>: \<open>Undefined\<close> (absent), \<open>Null\<close>, or a
  value.
\<close>

datatype 'a nullable = Undefined | Null | Val 'a

datatype js_value = JUndefined | JNull | JBool bool | JNumber int | JString string | JObject

text \<open>Truthiness of a string-or-nullish value: \<open>undefined\<close>, \<open>null\<close> and \<open>''\<close> are falsy.\<close>

fun truthy :: "string nullable \<Rightarrow> bool" where
  "truthy (Val s) = (s \<noteq> [])"
| "truthy _ = False"

text \<open>\<open>x || d\<close> for a string-or-nullish \<open>x\<close> and a string \<open>d\<close>.\<close>

definition js_or :: "string nullable \<Rightarrow> string \<Rightarrow> string nullable" where
  "js_or x d = (if truthy x then x else Val d)"

text \<open>What a template literal \<open>`${x}`\<close> renders for a string-or-nullish value.\<close>

fun template :: "string nullable \<Rightarrow> string" where
  "template (Val s) = s"
| "template Null = ''null''"
| "template Undefined = ''undefined''"

text \<open>
  \<open>String.prototype.trim\<close> removes white space and line terminators at both ends; among
  the code units below 256 these are 9 to 13, 32 and 160.
\<close>

definition is_js_space :: "char \<Rightarrow> bool" where
  "is_js_space c = (of_char c \<in> {9, 10, 11, 12, 13, 32, 160 :: nat})"

definition trim :: "string \<Rightarrow> string" where
  "trim s = rev (dropWhile is_js_space (rev (dropWhile is_js_space s)))"

text \<open>\<open>s.split(',')\<close>: the pieces between commas; never the empty array.\<close>

fun js_split :: "string \<Rightarrow> string list" where
  "js_split [] = [[]]"
| "js_split (c # cs) =
     (if c = CHR '','' then [] # js_split cs
      else (c # hd (js_split cs)) # tl (js_split cs))"

text \<open>\<open>xs.join(sep)\<close> on an array of strings.\<close>

fun js_join :: "string \<Rightarrow> string list \<Rightarrow> string" where
  "js_join sep [] = []"
| "js_join sep [x] = x"
| "js_join sep (x # y # ys) = x @ sep @ js_join sep (y # ys)"

text \<open>
  A thrown value: its \<open>message\<close>, the \<open>statusCode\<close> an \<open>AppError\<close> carries, what
  \<open>error.response?.status\<close> reads (\<open>None\<close> when the error has no \<open>response\<close> property or the
  response has no status), and the numeric \<open>status\<close> property an error of the OpenAI client
  carries (\<open>error_status\<close>).
  \<open>AppError\<close> (\<open>utils/errorHandler.js\<close>) sets \<open>message\<close> and \<open>statusCode\<close>; its \<open>status\<close> (the
  string \<open>fail\<close> or \<open>error\<close>) and \<open>isOperational\<close> are functions of \<open>statusCode\<close> that the
  pipeline never reads, and it has no \<open>response\<close>.
\<close>

record js_error =
  message :: string
  statusCode :: "nat option"
  response_status :: "nat option"
  error_status :: "nat option"

definition AppError :: "string \<Rightarrow> nat \<Rightarrow> js_error" where
  "AppError msg code =
     \<lparr>message = msg, statusCode = Some code, response_status = None, error_status = None\<rparr>"

definition Error :: "string \<Rightarrow> js_error" where
  "Error msg = \<lparr>message = msg, statusCode = None, response_status = None, error_status = None\<rparr>"

text \<open>
  The client of \<open>services/aiService.js\<close> is \<open>new OpenAI({apiKey})\<close> with the methods
  \<open>audio.transcriptions.create\<close> and \<open>chat.completions.create\<close>. A call of one of them
  fails in one of two ways. When the provider answers with an HTTP error status, the
  client throws an \<open>APIError\<close>, which holds that status in its \<open>status\<close> property and has no
  \<open>response\<close> property. When there is no usable reply (a connection error, a timeout, or,
  for a chat request, a reply without \<open>choices[0].message.content\<close>, on which the code
  itself throws a \<open>TypeError\<close>), the thrown error has neither.
\<close>

datatype provider_failure = HttpError nat string | NoReply string

definition APIError :: "nat \<Rightarrow> string \<Rightarrow> js_error" where
  "APIError code msg =
     \<lparr>message = msg, statusCode = None, response_status = None, error_status = Some code\<rparr>"

fun thrown :: "provider_failure \<Rightarrow> js_error" where
  "thrown (HttpError code msg) = APIError code msg"
| "thrown (NoReply msg) = Error msg"

section \<open>models/Meeting.js\<close>

text \<open>
  \<open>parseParticipants\<close>: a falsy or non-string argument gives \<open>[]\<close>; a string is split at
  commas, each piece trimmed, and the empty pieces filtered out.
\<close>

fun parseParticipants :: "js_value \<Rightarrow> string list" where
  "parseParticipants (JString participantsString) =
     (if participantsString = [] then []
      else filter (\<lambda>p. length p > 0) (map trim (js_split participantsString)))"
| "parseParticipants _ = []"

section \<open>config/airtableConfig.js and the outside world\<close>

text \<open>
  The Airtable field names of the Meetings table (\<open>FIELDS.MEETINGS\<close>), and the values of
  \<open>TASK_STATUS\<close> and \<open>TASK_PRIORITY\<close> the pipeline uses.
\<close>

definition TRANSCRIPT :: string where "TRANSCRIPT = ''transcript''"
definition MOM :: string where "MOM = ''mom''"
definition ACTION_POINTS :: string where "ACTION_POINTS = ''action_points''"
definition SUMMARY :: string where "SUMMARY = ''summary''"

definition TASK_STATUS_PENDING :: string where "TASK_STATUS_PENDING = ''pending''"
definition TASK_PRIORITY_MEDIUM :: string where "TASK_PRIORITY_MEDIUM = ''medium''"

text \<open>
  A cell of a Meetings row is a text or a list of linked record ids. A row maps field names
  to cells; a field that was never written is absent. The payload of an update is the list
  of the fields it names.
\<close>

datatype cell = Text string | Links "string list"

type_synonym row = "string \<rightharpoonup> cell"

type_synonym audio_file = string

text \<open>The object \<open>transcribeAudio\<close> returns; the provider's reply has the same five properties.\<close>

record transcription =
  text_of :: string
  duration :: nat
  language :: string
  segments :: "string list"
  words :: "string list"

text \<open>
  The arguments of \<open>openai.chat.completions.create\<close>: the model, the system message, the
  user message and \<open>max_tokens\<close> (the sampling temperature, a float, is left out).
\<close>

record chat_request =
  model :: string
  system_content :: string
  user_content :: string
  max_tokens :: nat

text \<open>
  An action item as the extraction prompt and \<open>actionItemSchema\<close> describe it: an object
  with a \<open>task\<close> string and four more string properties, each of which may be missing or
  null.
\<close>

record action_item =
  task :: string
  assignee :: "string nullable"
  deadline :: "string nullable"
  priority :: "string nullable"
  category :: "string nullable"

text \<open>
  What \<open>JSON.parse\<close> returns for the extraction reply, as far as \<open>extractActionItems\<close> looks
  at it: its \<open>action_items\<close> property, which may be missing, null, or any value. The type
  \<open>'v\<close> of that value is left open, because \<open>extractActionItems\<close> only hands it on.
\<close>

record 'v parsed_reply =
  action_items :: "'v nullable"

text \<open>
  The values \<open>JSON.parse\<close> can return (numbers restricted to integers; an object is the
  list of its properties), and what reading \<open>.action_items\<close> of such a value gives. Only
  an object can have the property; for \<open>null\<close> the read itself throws a \<open>TypeError\<close>, which
  the code treats like the \<open>TypeError\<close> of the \<open>.length\<close> read that follows a missing
  property.
\<close>

datatype json =
  JSON_null
| JSON_bool bool
| JSON_number int
| JSON_string string
| JSON_array "json list"
| JSON_object "(string \<times> json) list"


text \<open>The \<open>fields\<close> object of a Tasks record (\<open>FIELDS.TASKS\<close>).\<close>

record task_fields =
  NAME :: string
  OWNER_ID :: "string nullable"
  STATUS :: string
  DEADLINE :: "string nullable"
  SOURCE_MEETING :: "string list nullable"
  TEAM :: string
  DESCRIPTION :: string
  PRIORITY :: "string nullable"
  CREATED_AT :: string

text \<open>What \<open>formatTaskRecord\<close> returns.\<close>

record task_record =
  task_id :: string
  name :: string
  owner_id :: "string nullable"
  status :: string
  task_deadline :: "string nullable"
  source_meeting :: "string list nullable"
  team :: string
  description :: string
  task_priority :: "string nullable"
  created_at :: string

text \<open>
  Everything the code reads from outside itself. The environment variables; the speech and
  chat providers, where the \<open>n\<close>-th call of the client's \<open>create\<close> method ends with a reply
  or a failure (for the chat provider the reply is \<open>choices[0].message.content\<close>; what the
  client does below one call of \<open>create\<close> is not modelled); \<open>JSON.parse\<close> (\<open>None\<close> when it
  throws); the Airtable base, whose updates and creates may throw, and which names new
  records; and the clock.
\<close>

record 'v env =
  OPENAI_API_KEY :: "string nullable"
  AIRTABLE_API_KEY :: "string nullable"
  AIRTABLE_BASE_ID :: "string nullable"
  whisper_create :: "nat \<Rightarrow> audio_file \<Rightarrow> provider_failure + transcription"
  chat_create :: "nat \<Rightarrow> chat_request \<Rightarrow> provider_failure + string"
  JSON_parse :: "string \<Rightarrow> 'v parsed_reply option"
  meetings_update_error :: "string \<Rightarrow> (string \<times> cell) list \<Rightarrow> js_error option"
  not_found_error :: js_error
  tasks_create_error :: "task_fields list \<Rightarrow> js_error option"
  new_record_id :: "nat \<Rightarrow> string"
  now :: string

text \<open>
  The trace records the entry into a stage function (\<open>Call\<close>), the run of its \<open>catch\<close> block
  (\<open>Failed\<close>, where the source logs the error and throws), and every update of a Meetings
  row, performed or refused.
\<close>

datatype stage = Transcribe | Minutes | Extract | Summarize | Materialize

datatype event =
  Call stage
| Failed stage
| Updated string "(string \<times> cell) list"
| UpdateFailed string "(string \<times> cell) list"

text \<open>
  The state the code changes: the two tables, the arguments of the calls of the client's
  two \<open>create\<close> methods, and the trace.
\<close>

record world =
  meetings :: "string \<rightharpoonup> row"
  tasks :: "(string \<times> task_fields) list"
  whisper_requests :: "audio_file list"
  chat_requests :: "chat_request list"
  trace :: "event list"

definition emit :: "event \<Rightarrow> world \<Rightarrow> world" where
  "emit e w = w\<lparr>trace := trace w @ [e]\<rparr>"

definition isOpenAIConfigured :: "'v env \<Rightarrow> bool" where
  "isOpenAIConfigured env = truthy (OPENAI_API_KEY env)"

text \<open>\<open>base\<close> is set exactly when both variables are truthy.\<close>

definition isAirtableConfigured :: "'v env \<Rightarrow> bool" where
  "isAirtableConfigured env = (truthy (AIRTABLE_API_KEY env) \<and> truthy (AIRTABLE_BASE_ID env))"

text \<open>\<open>getTable\<close> throws when \<open>base\<close> is not set.\<close>

definition getTable :: "'v env \<Rightarrow> js_error + unit" where
  "getTable env =
     (if isAirtableConfigured env then Inr ()
      else Inl (Error ''Airtable not configured. Please add AIRTABLE_API_KEY and AIRTABLE_BASE_ID to environment variables.''))"

text \<open>One call of each \<open>create\<close> method: its outcome depends on how many calls came before.\<close>

definition whisper_request ::
  "'v env \<Rightarrow> audio_file \<Rightarrow> world \<Rightarrow> (provider_failure + transcription) \<times> world" where
  "whisper_request env audioFile w =
     (whisper_create env (length (whisper_requests w)) audioFile,
      w\<lparr>whisper_requests := whisper_requests w @ [audioFile]\<rparr>)"

definition chat_request ::
  "'v env \<Rightarrow> chat_request \<Rightarrow> world \<Rightarrow> (provider_failure + string) \<times> world" where
  "chat_request env req w =
     (chat_create env (length (chat_requests w)) req,
      w\<lparr>chat_requests := chat_requests w @ [req]\<rparr>)"

text \<open>
  \<open>meetingsTable.update([{id, fields}])\<close>: a partial update, which replaces the named fields
  of the row and leaves the others; it throws when the base refuses it or has no such row.
\<close>

definition meetingsTable_update ::
  "'v env \<Rightarrow> string \<Rightarrow> (string \<times> cell) list \<Rightarrow> world \<Rightarrow> (js_error + unit) \<times> world" where
  "meetingsTable_update env rid payload w =
     (case meetings_update_error env rid payload of
        Some error \<Rightarrow> (Inl error, emit (UpdateFailed rid payload) w)
      | None \<Rightarrow>
          (case meetings w rid of
             None \<Rightarrow> (Inl (not_found_error env), emit (UpdateFailed rid payload) w)
           | Some r \<Rightarrow>
               (Inr (),
                emit (Updated rid payload)
                  (w\<lparr>meetings := (meetings w)(rid \<mapsto> r ++ map_of payload)\<rparr>))))"

text \<open>
  \<open>tasksTable.create(records)\<close>: it throws, or stores one record per \<open>fields\<close> object under
  a new id and returns the stored records.
\<close>

definition tasksTable_create ::
  "'v env \<Rightarrow> task_fields list \<Rightarrow> world \<Rightarrow> (js_error + (string \<times> task_fields) list) \<times> world" where
  "tasksTable_create env records w =
     (case tasks_create_error env records of
        Some error \<Rightarrow> (Inl error, w)
      | None \<Rightarrow>
          (let created =
                 zip (map (\<lambda>i. new_record_id env (length (tasks w) + i)) [0..<length records])
                   records
           in (Inr created, w\<lparr>tasks := tasks w @ created\<rparr>)))"

section \<open>services/aiService.js\<close>

definition rate_limit_message :: string where
  "rate_limit_message = ''OpenAI API rate limit exceeded. Please try again later.''"

text \<open>
  The \<open>catch\<close> block of \<open>transcribeAudio\<close>, which reads \<open>error.response?.status\<close>. It also
  catches the \<open>AppError\<close> thrown inside the \<open>try\<close> when the API key is missing.
\<close>

definition transcribe_catch :: "js_error \<Rightarrow> js_error" where
  "transcribe_catch error =
     (if response_status error = Some 429 then AppError rate_limit_message 429
      else if response_status error = Some 401 then AppError ''OpenAI API authentication failed'' 500
      else if response_status error = Some 413 then AppError ''Audio file too large. Maximum size is 25MB.'' 400
      else AppError ''Failed to transcribe audio'' 500)"

definition transcribeAudio ::
  "'v env \<Rightarrow> audio_file \<Rightarrow> world \<Rightarrow> (js_error + transcription) \<times> world" where
  "transcribeAudio env audioFile w0 =
     (let w = emit (Call Transcribe) w0 in
      if \<not> isOpenAIConfigured env
      then (Inl (transcribe_catch (AppError ''OpenAI API not configured'' 500)),
            emit (Failed Transcribe) w)
      else
        (case whisper_request env audioFile w of
           (Inl failure, w') \<Rightarrow>
             (Inl (transcribe_catch (thrown failure)), emit (Failed Transcribe) w')
         | (Inr transcription, w') \<Rightarrow>
             (Inr \<lparr>text_of = text_of transcription,
                   duration = duration transcription,
                   language = language transcription,
                   segments = segments transcription,
                   words = words transcription\<rparr>, w')))"

definition mom_prompt :: "string \<Rightarrow> string \<Rightarrow> string list \<Rightarrow> string" where
  "mom_prompt transcript meetingTitle participants =
     ''\<newline>Please create comprehensive Minutes of Meeting (MOM) from the following meeting transcript.\<newline>''
     @ ''\<newline>Meeting Title: '' @ meetingTitle
     @ ''\<newline>Participants: ''
     @ (if length participants > 0 then js_join '', '' participants else ''Not specified'')
     @ ''\<newline>\<newline>Transcript:\<newline>'' @ transcript
     @ ''\<newline>\<newline>Please format the MOM with the following structure:\<newline>''
     @ ''1. Meeting Overview\<newline>''
     @ ''2. Attendees\<newline>''
     @ ''3. Key Discussion Points\<newline>''
     @ ''4. Decisions Made\<newline>''
     @ ''5. Action Items (with responsible persons if mentioned)\<newline>''
     @ ''6. Next Steps\<newline>''
     @ ''7. Next Meeting (if mentioned)\<newline>''
     @ ''\<newline>Make it professional, concise, and well-organized.\<newline>''"

definition mom_request :: "string \<Rightarrow> string \<Rightarrow> string list \<Rightarrow> chat_request" where
  "mom_request transcript meetingTitle participants =
     \<lparr>model = ''gpt-4'',
      system_content = ''You are a professional meeting secretary who creates detailed and well-structured Minutes of Meeting. Focus on clarity, accuracy, and actionable items.'',
      user_content = mom_prompt transcript meetingTitle participants,
      max_tokens = 2000\<rparr>"

definition mom_catch :: "js_error \<Rightarrow> js_error" where
  "mom_catch error =
     (if response_status error = Some 429 then AppError rate_limit_message 429
      else AppError ''Failed to generate Minutes of Meeting'' 500)"

definition generateMOM ::
  "'v env \<Rightarrow> string \<Rightarrow> string \<Rightarrow> string list \<Rightarrow> world \<Rightarrow> (js_error + string) \<times> world" where
  "generateMOM env transcript meetingTitle participants w0 =
     (let w = emit (Call Minutes) w0 in
      if \<not> isOpenAIConfigured env
      then (Inl (mom_catch (AppError ''OpenAI API not configured'' 500)), emit (Failed Minutes) w)
      else
        (case chat_request env (mom_request transcript meetingTitle participants) w of
           (Inl failure, w') \<Rightarrow> (Inl (mom_catch (thrown failure)), emit (Failed Minutes) w')
         | (Inr mom, w') \<Rightarrow> (Inr mom, w')))"

definition extract_prompt :: "string \<Rightarrow> string \<Rightarrow> string" where
  \<open>extract_prompt txt context =
     ''\<newline>Analyze the following '' @ context
     @ '' and extract all action items, tasks, and follow-ups mentioned.\<newline>\<newline>''
     @ (if context = ''transcript'' then ''Meeting Transcript:'' else ''Meeting Content:'')
     @ ''\<newline>'' @ txt
     @ ''\<newline>\<newline>Please extract action items in the following JSON format:\<newline>''
     @ ''{\<newline>''
     @ ''  "action_items": [\<newline>''
     @ ''    {\<newline>''
     @ ''      "task": "Description of the task",\<newline>''
     @ ''      "assignee": "Person responsible (if mentioned, otherwise 'Not specified')",\<newline>''
     @ ''      "deadline": "Deadline if mentioned (otherwise 'Not specified')",\<newline>''
     @ ''      "priority": "high/medium/low (based on context)",\<newline>''
     @ ''      "category": "Category of the task (e.g., 'Development', 'Research', 'Meeting', 'Documentation')"\<newline>''
     @ ''    }\<newline>''
     @ ''  ]\<newline>''
     @ ''}\<newline>''
     @ ''\<newline>Focus on:\<newline>''
     @ ''- Clear, actionable tasks\<newline>''
     @ ''- Specific deliverables\<newline>''
     @ ''- Follow-up meetings\<newline>''
     @ ''- Research or investigation tasks\<newline>''
     @ ''- Decisions that require implementation\<newline>''
     @ ''\<newline>Return only the JSON object, no additional text.\<newline>''\<close>

definition extract_request :: "string \<Rightarrow> string \<Rightarrow> chat_request" where
  "extract_request txt context =
     \<lparr>model = ''gpt-4'',
      system_content = ''You are an expert at identifying and extracting action items from meeting content. Return only valid JSON.'',
      user_content = extract_prompt txt context,
      max_tokens = 1500\<rparr>"

definition extract_catch :: "js_error \<Rightarrow> js_error" where
  "extract_catch error =
     (if response_status error = Some 429 then AppError rate_limit_message 429
      else AppError ''Failed to extract action items'' 500)"

text \<open>
  \<open>extractActionItems\<close>. After the reply, \<open>JSON.parse\<close> may throw a \<open>SyntaxError\<close>, and reading
  \<open>actionItems.action_items.length\<close> throws a \<open>TypeError\<close> when \<open>action_items\<close> is missing or
  null; both land in the \<open>catch\<close> block. For every other value of \<open>action_items\<close> the read of
  \<open>.length\<close> does not throw, and the value is returned as it is, whatever it is.
\<close>

definition extractActionItems ::
  "'v env \<Rightarrow> string \<Rightarrow> string \<Rightarrow> world \<Rightarrow> (js_error + 'v) \<times> world" where
  "extractActionItems env txt context w0 =
     (let w = emit (Call Extract) w0 in
      if \<not> isOpenAIConfigured env
      then (Inl (extract_catch (AppError ''OpenAI API not configured'' 500)), emit (Failed Extract) w)
      else
        (case chat_request env (extract_request txt context) w of
           (Inl failure, w') \<Rightarrow>
             (Inl (extract_catch (thrown failure)), emit (Failed Extract) w')
         | (Inr response, w') \<Rightarrow>
             (case JSON_parse env response of
                None \<Rightarrow>
                  (Inl (extract_catch (Error ''SyntaxError'')), emit (Failed Extract) w')
              | Some actionItems \<Rightarrow>
                  (case action_items actionItems of
                     Val v \<Rightarrow> (Inr v, w')
                   | _ \<Rightarrow>
                       (Inl (extract_catch (Error ''TypeError'')), emit (Failed Extract) w')))))"

definition actionItemsText :: "action_item list \<Rightarrow> string" where
  "actionItemsText actionItems =
     (if length actionItems > 0
      then js_join ''\<newline>''
             (map (\<lambda>item. ''- '' @ task item @ '' (Assignee: '' @ template (assignee item)
                            @ '', Deadline: '' @ template (deadline item) @ '')'')
                actionItems)
      else ''No specific action items identified.'')"

definition summary_prompt :: "string \<Rightarrow> action_item list \<Rightarrow> string" where
  "summary_prompt mom actionItems =
     ''\<newline>Create a concise, email-ready summary from the following Minutes of Meeting.\<newline>''
     @ ''\<newline>Minutes of Meeting:\<newline>'' @ mom
     @ ''\<newline>\<newline>Action Items:\<newline>'' @ actionItemsText actionItems
     @ ''\<newline>\<newline>Please create a professional email summary that includes:\<newline>''
     @ ''1. Brief meeting overview (2-3 sentences)\<newline>''
     @ ''2. Key decisions/outcomes\<newline>''
     @ ''3. Priority action items\<newline>''
     @ ''4. Next steps\<newline>''
     @ ''\<newline>Keep it concise (under 300 words) and suitable for sending to stakeholders who may not have attended the meeting.\<newline>''
     @ ''Use a professional but friendly tone.\<newline>''"

definition summary_request :: "string \<Rightarrow> action_item list \<Rightarrow> chat_request" where
  "summary_request mom actionItems =
     \<lparr>model = ''gpt-4'',
      system_content = ''You are a professional communicator who creates clear, concise email summaries of meetings for busy executives and stakeholders.'',
      user_content = summary_prompt mom actionItems,
      max_tokens = 800\<rparr>"

definition summary_catch :: "js_error \<Rightarrow> js_error" where
  "summary_catch error =
     (if response_status error = Some 429 then AppError rate_limit_message 429
      else AppError ''Failed to generate email summary'' 500)"

definition generateEmailSummary ::
  "'v env \<Rightarrow> string \<Rightarrow> action_item list \<Rightarrow> world \<Rightarrow> (js_error + string) \<times> world" where
  "generateEmailSummary env mom actionItems w0 =
     (let w = emit (Call Summarize) w0 in
      if \<not> isOpenAIConfigured env
      then (Inl (summary_catch (AppError ''OpenAI API not configured'' 500)),
            emit (Failed Summarize) w)
      else
        (case chat_request env (summary_request mom actionItems) w of
           (Inl failure, w') \<Rightarrow>
             (Inl (summary_catch (thrown failure)), emit (Failed Summarize) w')
         | (Inr summary, w') \<Rightarrow> (Inr summary, w')))"

text \<open>
  The object \<open>processCompleteeMeeting\<close> returns. From here on the value of \<open>action_items\<close> is
  a list of action items as described above.
\<close>

record ai_results =
  transcription :: transcription
  mom :: string
  actionItems :: "action_item list"
  emailSummary :: string
  processingComplete :: bool
  processedAt :: string

text \<open>
  \<open>processCompleteeMeeting\<close>: the four stages one after the other, each on the results of
  the ones before; its \<open>catch\<close> block logs the error and throws it again unchanged.
\<close>

definition processCompleteeMeeting ::
  "action_item list env \<Rightarrow> audio_file \<Rightarrow> string \<Rightarrow> string list \<Rightarrow> world \<Rightarrow> (js_error + ai_results) \<times> world" where
  "processCompleteeMeeting env audioFile meetingTitle participants w =
     (case transcribeAudio env audioFile w of
        (Inl error, w1) \<Rightarrow> (Inl error, w1)
      | (Inr transcription', w1) \<Rightarrow>
     (case generateMOM env (text_of transcription') meetingTitle participants w1 of
        (Inl error, w2) \<Rightarrow> (Inl error, w2)
      | (Inr mom', w2) \<Rightarrow>
     (case extractActionItems env (text_of transcription') ''transcript'' w2 of
        (Inl error, w3) \<Rightarrow> (Inl error, w3)
      | (Inr actionItems', w3) \<Rightarrow>
     (case generateEmailSummary env mom' actionItems' w3 of
        (Inl error, w4) \<Rightarrow> (Inl error, w4)
      | (Inr emailSummary', w4) \<Rightarrow>
          (Inr \<lparr>transcription = transcription',
                mom = mom',
                actionItems = actionItems',
                emailSummary = emailSummary',
                processingComplete = True,
                processedAt = now env\<rparr>, w4)))))"

section \<open>services/taskService.js\<close>

definition formatTaskRecord :: "string \<times> task_fields \<Rightarrow> task_record" where
  "formatTaskRecord record =
     \<lparr>task_id = fst record,
      name = NAME (snd record),
      owner_id = OWNER_ID (snd record),
      status = STATUS (snd record),
      task_deadline = DEADLINE (snd record),
      source_meeting = SOURCE_MEETING (snd record),
      team = TEAM (snd record),
      description = DESCRIPTION (snd record),
      task_priority = PRIORITY (snd record),
      created_at = CREATED_AT (snd record)\<rparr>"

text \<open>The \<open>fields\<close> object \<open>createTasksFromActionItems\<close> builds for one action item.\<close>

definition task_fields_of :: "'v env \<Rightarrow> string \<Rightarrow> string \<Rightarrow> action_item \<Rightarrow> task_fields" where
  "task_fields_of env meetingId projectId item =
     \<lparr>NAME = task item,
      OWNER_ID = (if assignee item \<noteq> Val ''Not specified'' then assignee item else Null),
      STATUS = TASK_STATUS_PENDING,
      DEADLINE = (if deadline item \<noteq> Val ''Not specified'' then deadline item else Null),
      SOURCE_MEETING = (if meetingId \<noteq> [] then Val [meetingId] else Undefined),
      TEAM = projectId,
      DESCRIPTION = ''Auto-generated from meeting action item: '' @ task item,
      PRIORITY = js_or (priority item) TASK_PRIORITY_MEDIUM,
      CREATED_AT = now env\<rparr>"

text \<open>
  \<open>createTasksFromActionItems\<close>. The configuration check comes first and throws inside the
  \<open>try\<close>; the \<open>catch\<close> block replaces every error by the same \<open>AppError\<close>. A null, missing
  or empty list returns \<open>[]\<close> before the table is touched.
\<close>

definition createTasksFromActionItems ::
  "'v env \<Rightarrow> action_item list nullable \<Rightarrow> string \<Rightarrow> string \<Rightarrow> world
     \<Rightarrow> (js_error + task_record list) \<times> world" where
  "createTasksFromActionItems env actionItems' meetingId projectId w0 =
     (let w = emit (Call Materialize) w0 in
      if \<not> isAirtableConfigured env
      then (Inl (AppError ''Failed to create tasks from action items'' 500),
            emit (Failed Materialize) w)
      else
        (case actionItems' of
           Val (item # items) \<Rightarrow>
             (case tasksTable_create env
                     (map (task_fields_of env meetingId projectId) (item # items)) w of
                (Inl error, w') \<Rightarrow>
                  (Inl (AppError ''Failed to create tasks from action items'' 500),
                   emit (Failed Materialize) w')
              | (Inr createdRecords, w') \<Rightarrow> (Inr (map formatTaskRecord createdRecords), w'))
         | _ \<Rightarrow> (Inr [], w)))"

section \<open>routes/meetingRoutes.js\<close>

text \<open>
  \<open>processAIAnalysis\<close>: all four AI stages run first; then one update writes the transcript,
  the minutes and the summary; then, when there is at least one action item, the tasks are
  created and a second update links their ids. Its \<open>catch\<close> block logs the error and throws
  it again unchanged.
\<close>

definition processAIAnalysis ::
  "action_item list env \<Rightarrow> audio_file \<Rightarrow> string \<Rightarrow> string list \<Rightarrow> string \<Rightarrow> string \<Rightarrow> world
     \<Rightarrow> (js_error + unit) \<times> world" where
  "processAIAnalysis env file title participants meetingId projectId w =
     (case processCompleteeMeeting env file title participants w of
        (Inl error, w1) \<Rightarrow> (Inl error, w1)
      | (Inr aiResults, w1) \<Rightarrow>
     (case getTable env of
        Inl error \<Rightarrow> (Inl error, w1)
      | Inr _ \<Rightarrow>
     (case meetingsTable_update env meetingId
             [(TRANSCRIPT, Text (text_of (transcription aiResults))),
              (MOM, Text (mom aiResults)),
              (SUMMARY, Text (emailSummary aiResults))] w1 of
        (Inl error, w2) \<Rightarrow> (Inl error, w2)
      | (Inr _, w2) \<Rightarrow>
          if length (actionItems aiResults) > 0
          then
            (case createTasksFromActionItems env (Val (actionItems aiResults))
                    meetingId projectId w2 of
               (Inl error, w3) \<Rightarrow> (Inl error, w3)
             | (Inr tasks', w3) \<Rightarrow>
                 (case meetingsTable_update env meetingId
                         [(ACTION_POINTS, Links (map task_id tasks'))] w3 of
                    (Inl error, w4) \<Rightarrow> (Inl error, w4)
                  | (Inr _, w4) \<Rightarrow> (Inr (), w4)))
          else (Inr (), w2))))"

text \<open>
  The tail of the \<open>POST /upload\<close> handler, after the response was sent: it starts
  \<open>processAIAnalysis\<close> on \<open>participants ? participants.split(',') : []\<close> and, when that
  rejects, tries once to write the failure text into the \<open>mom\<close> field; a failure of that
  update is logged and nothing else happens.
\<close>

definition failure_marker :: "js_error \<Rightarrow> string" where
  "failure_marker error = ''AI processing failed: '' @ message error"

definition upload_participants :: "string nullable \<Rightarrow> string list" where
  "upload_participants participants =
     (case participants of Val p \<Rightarrow> (if p \<noteq> [] then js_split p else []) | _ \<Rightarrow> [])"

definition upload_background ::
  "action_item list env \<Rightarrow> audio_file \<Rightarrow> string \<Rightarrow> string nullable \<Rightarrow> string \<Rightarrow> string \<Rightarrow> world \<Rightarrow> world" where
  "upload_background env file title participants meetingId project_id w =
     (case processAIAnalysis env file title (upload_participants participants)
             meetingId project_id w of
        (Inr _, w1) \<Rightarrow> w1
      | (Inl error, w1) \<Rightarrow>
          snd (meetingsTable_update env meetingId [(MOM, Text (failure_marker error))] w1))"

section \<open>Reading a run\<close>

text \<open>
  What a polling client reads: a field of a meeting's row (\<open>None\<close> when the row or the field
  is absent). The events a run added to the trace, the stages called among them, and the
  order of the five stages.
\<close>

definition meeting_field :: "world \<Rightarrow> string \<Rightarrow> string \<Rightarrow> cell option" where
  "meeting_field w rid f = (case meetings w rid of None \<Rightarrow> None | Some r \<Rightarrow> r f)"

definition new_events :: "world \<Rightarrow> world \<Rightarrow> event list" where
  "new_events w w' = drop (length (trace w)) (trace w')"


fun calls :: "event list \<Rightarrow> stage list" where
  "calls [] = []"
| "calls (Call s # es) = s # calls es"
| "calls (e # es) = calls es"

definition stage_order :: "stage list" where
  "stage_order = [Transcribe, Minutes, Extract, Summarize, Materialize]"

text \<open>
  The calls of the four AI stages; the payload of the update that writes their results;
  the ids of the Tasks records a run has added; and the ids the base gives to the next
  \<open>n\<close> records.
\<close>

definition stage_calls :: "event list" where
  "stage_calls = [Call Transcribe, Call Minutes, Call Extract, Call Summarize]"

definition results_payload :: "ai_results \<Rightarrow> (string \<times> cell) list" where
  "results_payload aiResults =
     [(TRANSCRIPT, Text (text_of (transcription aiResults))),
      (MOM, Text (mom aiResults)),
      (SUMMARY, Text (emailSummary aiResults))]"

definition created_ids :: "world \<Rightarrow> world \<Rightarrow> string list" where
  "created_ids w w' = map fst (drop (length (tasks w)) (tasks w'))"

definition new_ids :: "'v env \<Rightarrow> world \<Rightarrow> nat \<Rightarrow> string list" where
  "new_ids env w n = map (\<lambda>i. new_record_id env (length (tasks w) + i)) [0..<n]"

text \<open>
  The traces \<open>processAIAnalysis\<close> can leave for the meeting \<open>mid\<close>: when it throws, and when
  it completes.
\<close>

definition failed_analysis_events :: "string \<Rightarrow> event list \<Rightarrow> bool" where
  "failed_analysis_events mid evs =
     (evs = [Call Transcribe, Failed Transcribe]
      \<or> evs = [Call Transcribe, Call Minutes, Failed Minutes]
      \<or> evs = [Call Transcribe, Call Minutes, Call Extract, Failed Extract]
      \<or> evs = [Call Transcribe, Call Minutes, Call Extract, Call Summarize, Failed Summarize]
      \<or> evs = [Call Transcribe, Call Minutes, Call Extract, Call Summarize]
      \<or> (\<exists>P1. map fst P1 = [TRANSCRIPT, MOM, SUMMARY] \<and>
            (evs = [Call Transcribe, Call Minutes, Call Extract, Call Summarize,
                    UpdateFailed mid P1]
             \<or> evs = [Call Transcribe, Call Minutes, Call Extract, Call Summarize,
                       Updated mid P1, Call Materialize, Failed Materialize]
             \<or> (\<exists>ids. evs = [Call Transcribe, Call Minutes, Call Extract, Call Summarize,
                               Updated mid P1, Call Materialize,
                               UpdateFailed mid [(ACTION_POINTS, Links ids)]]))))"

definition completed_analysis_events :: "string \<Rightarrow> event list \<Rightarrow> bool" where
  "completed_analysis_events mid evs =
     (\<exists>P1. map fst P1 = [TRANSCRIPT, MOM, SUMMARY] \<and>
        (evs = [Call Transcribe, Call Minutes, Call Extract, Call Summarize, Updated mid P1]
         \<or> (\<exists>ids. evs = [Call Transcribe, Call Minutes, Call Extract, Call Summarize,
                           Updated mid P1, Call Materialize,
                           Updated mid [(ACTION_POINTS, Links ids)]])))"

section \<open>A sample run\<close>

text \<open>
  A concrete environment and state for evaluating the definitions: the transcript of the
  end-to-end scenario, a provider that answers the three chat requests in turn, a base that
  accepts every write, and a Meetings table holding the freshly uploaded meeting \<open>m1\<close>.
\<close>

definition sample_reply :: transcription where
  "sample_reply = \<lparr>text_of = ''Alice will send the report by Friday. Bob to review the budget.'',
            duration = 7, language = ''english'', segments = [], words = []\<rparr>"

definition item_a :: action_item where
  "item_a = \<lparr>task = ''Send the report'', assignee = Val ''Alice'', deadline = Val ''Friday'',
             priority = Val ''high'', category = Val ''Documentation''\<rparr>"

definition item_b :: action_item where
  "item_b = \<lparr>task = ''Review the budget'', assignee = Val ''Not specified'',
             deadline = Val ''Not specified'', priority = Undefined, category = Undefined\<rparr>"

definition good_env :: "action_item list env" where
  "good_env =
     \<lparr>OPENAI_API_KEY = Val ''sk-test'',
      AIRTABLE_API_KEY = Val ''key'',
      AIRTABLE_BASE_ID = Val ''app'',
      whisper_create = (\<lambda>n f. Inr sample_reply),
      chat_create = (\<lambda>n req. if n = 0 then Inr ''MINUTES'' else if n = 1 then Inr ''JSON'' else Inr ''SUMMARY''),
      JSON_parse = (\<lambda>s. if s = ''JSON'' then Some \<lparr>action_items = Val [item_a, item_b]\<rparr> else None),
      meetings_update_error = (\<lambda>rid payload. None),
      not_found_error = Error ''NOT_FOUND'',
      tasks_create_error = (\<lambda>records. None),
      new_record_id = (\<lambda>n. if n = 0 then ''rec0'' else if n = 1 then ''rec1'' else ''recN''),
      now = ''2025-08-05T00:00:00.000Z''\<rparr>"

definition world0 :: world where
  "world0 = \<lparr>meetings = [''m1'' \<mapsto> [''title'' \<mapsto> Text ''Weekly'']], tasks = [],
             whisper_requests = [], chat_requests = [], trace = []\<rparr>"

text \<open>
  Variations: a provider that answers with the status 503; a chat provider that is down;
  a speech provider and a base that are both down; a reply with no action items; the same
  with a chat provider that fails at its third request; a meeting that an earlier run has
  already filled in; and an environment whose extraction reply parses to a given JSON
  value.
\<close>

definition provider_down :: provider_failure where
  "provider_down = HttpError 503 ''Service Unavailable''"

definition minutes_down_env :: "action_item list env" where
  "minutes_down_env = good_env\<lparr>chat_create := \<lambda>n req. Inl provider_down\<rparr>"

definition store_down_env :: "action_item list env" where
  "store_down_env = good_env\<lparr>whisper_create := \<lambda>n f. Inl provider_down,
                              meetings_update_error := \<lambda>rid payload. Some (Error ''Service Unavailable'')\<rparr>"

definition no_items_env :: "action_item list env" where
  "no_items_env = good_env\<lparr>JSON_parse := \<lambda>s. Some \<lparr>action_items = Val []\<rparr>\<rparr>"

definition summary_down_env :: "action_item list env" where
  "summary_down_env =
     no_items_env\<lparr>chat_create := \<lambda>n req. if n < 2 then Inr ''REPLY'' else Inl provider_down\<rparr>"


definition world_rerun :: world where
  "world_rerun =
     \<lparr>meetings = [''m1'' \<mapsto> [''title'' \<mapsto> Text ''Weekly'', ''transcript'' \<mapsto> Text ''Earlier transcript'',
                               ''action_points'' \<mapsto> Links [''recOld'']]],
      tasks = [], whisper_requests = [], chat_requests = [], trace = []\<rparr>"

section \<open>Properties\<close>

subsection \<open>What each stage changes\<close>

lemma emit_simps [simp]:
  "meetings (emit e w) = meetings w" "tasks (emit e w) = tasks w"
  "whisper_requests (emit e w) = whisper_requests w" "chat_requests (emit e w) = chat_requests w"
  "trace (emit e w) = trace w @ [e]"
  by (simp_all add: emit_def)

lemma transcribeAudio_snd:
  "meetings (snd (transcribeAudio env f w)) = meetings w
   \<and> tasks (snd (transcribeAudio env f w)) = tasks w
   \<and> chat_requests (snd (transcribeAudio env f w)) = chat_requests w
   \<and> trace (snd (transcribeAudio env f w)) =
       trace w @ (if isl (fst (transcribeAudio env f w))
                  then [Call Transcribe, Failed Transcribe] else [Call Transcribe])"
  by (simp add: transcribeAudio_def whisper_request_def Let_def split: sum.splits)

lemma generateMOM_snd:
  "meetings (snd (generateMOM env t title ps w)) = meetings w
   \<and> tasks (snd (generateMOM env t title ps w)) = tasks w
   \<and> trace (snd (generateMOM env t title ps w)) =
       trace w @ (if isl (fst (generateMOM env t title ps w))
                  then [Call Minutes, Failed Minutes] else [Call Minutes])"
  by (simp add: generateMOM_def chat_request_def Let_def split: sum.splits)

lemma extractActionItems_snd:
  "meetings (snd (extractActionItems env t c w)) = meetings w
   \<and> tasks (snd (extractActionItems env t c w)) = tasks w
   \<and> trace (snd (extractActionItems env t c w)) =
       trace w @ (if isl (fst (extractActionItems env t c w))
                  then [Call Extract, Failed Extract] else [Call Extract])"
  by (simp add: extractActionItems_def chat_request_def Let_def
      split: sum.splits option.splits nullable.splits)

lemma generateEmailSummary_snd:
  "meetings (snd (generateEmailSummary env m items w)) = meetings w
   \<and> tasks (snd (generateEmailSummary env m items w)) = tasks w
   \<and> trace (snd (generateEmailSummary env m items w)) =
       trace w @ (if isl (fst (generateEmailSummary env m items w))
                  then [Call Summarize, Failed Summarize] else [Call Summarize])"
  by (simp add: generateEmailSummary_def chat_request_def Let_def split: sum.splits)

lemma transcribeAudio_effect:
  assumes "transcribeAudio env f w = (r, w')"
  shows "meetings w' = meetings w \<and> tasks w' = tasks w \<and> chat_requests w' = chat_requests w
    \<and> trace w' = trace w @ (if isl r then [Call Transcribe, Failed Transcribe] else [Call Transcribe])"
  using transcribeAudio_snd[of env f w] assms by simp

lemma generateMOM_effect:
  assumes "generateMOM env t title ps w = (r, w')"
  shows "meetings w' = meetings w \<and> tasks w' = tasks w
    \<and> trace w' = trace w @ (if isl r then [Call Minutes, Failed Minutes] else [Call Minutes])"
  using generateMOM_snd[of env t title ps w] assms by simp

lemma extractActionItems_effect:
  assumes "extractActionItems env t c w = (r, w')"
  shows "meetings w' = meetings w \<and> tasks w' = tasks w
    \<and> trace w' = trace w @ (if isl r then [Call Extract, Failed Extract] else [Call Extract])"
  using extractActionItems_snd[of env t c w] assms by simp

lemma generateEmailSummary_effect:
  assumes "generateEmailSummary env m items w = (r, w')"
  shows "meetings w' = meetings w \<and> tasks w' = tasks w
    \<and> trace w' = trace w @ (if isl r then [Call Summarize, Failed Summarize] else [Call Summarize])"
  using generateEmailSummary_snd[of env m items w] assms by simp

lemma processCompleteeMeeting_effect:
  assumes "processCompleteeMeeting env f title ps w = (r, w')"
  shows "meetings w' = meetings w \<and> tasks w' = tasks w
    \<and> (if isl r then
           trace w' = trace w @ [Call Transcribe, Failed Transcribe]
            \<or> trace w' = trace w @ [Call Transcribe, Call Minutes, Failed Minutes]
            \<or> trace w' = trace w @ [Call Transcribe, Call Minutes, Call Extract, Failed Extract]
            \<or> trace w' = trace w @ [Call Transcribe, Call Minutes, Call Extract, Call Summarize,
                                     Failed Summarize]
        else trace w' = trace w @ [Call Transcribe, Call Minutes, Call Extract, Call Summarize])"
proof -
  obtain r1 w1 where s1: "transcribeAudio env f w = (r1, w1)" by fastforce
  note e1 = transcribeAudio_effect[OF s1]
  show ?thesis
  proof (cases r1)
    case (Inl e)
    with s1 e1 assms show ?thesis by (auto simp: processCompleteeMeeting_def)
  next
    case (Inr t)
    obtain r2 w2 where s2: "generateMOM env (text_of t) title ps w1 = (r2, w2)" by fastforce
    note e2 = generateMOM_effect[OF s2]
    show ?thesis
    proof (cases r2)
      case (Inl e)
      with s1 e1 s2 e2 Inr assms show ?thesis by (auto simp: processCompleteeMeeting_def)
    next
      case m: (Inr m)
      obtain r3 w3 where s3: "extractActionItems env (text_of t) ''transcript'' w2 = (r3, w3)"
        by fastforce
      note e3 = extractActionItems_effect[OF s3]
      show ?thesis
      proof (cases r3)
        case (Inl e)
        with s1 e1 s2 e2 s3 e3 Inr m assms show ?thesis by (auto simp: processCompleteeMeeting_def)
      next
        case i: (Inr items)
        obtain r4 w4 where s4: "generateEmailSummary env m items w3 = (r4, w4)" by fastforce
        note e4 = generateEmailSummary_effect[OF s4]
        from s1 e1 s2 e2 s3 e3 s4 e4 Inr m i assms show ?thesis
          by (cases r4) (auto simp: processCompleteeMeeting_def)
      qed
    qed
  qed
qed

lemma meetingsTable_update_snd:
  "tasks (snd (meetingsTable_update env rid P w)) = tasks w
   \<and> (if isl (fst (meetingsTable_update env rid P w))
       then meetings (snd (meetingsTable_update env rid P w)) = meetings w
            \<and> trace (snd (meetingsTable_update env rid P w)) = trace w @ [UpdateFailed rid P]
       else trace (snd (meetingsTable_update env rid P w)) = trace w @ [Updated rid P]
            \<and> meetings_update_error env rid P = None
            \<and> (\<exists>r. meetings w rid = Some r
                 \<and> meetings (snd (meetingsTable_update env rid P w)) = (meetings w)(rid \<mapsto> r ++ map_of P)))"
  by (simp add: meetingsTable_update_def split: option.splits)

lemma meetingsTable_update_effect:
  assumes "meetingsTable_update env rid P w = (r, w')"
  shows "tasks w' = tasks w
   \<and> (if isl r then meetings w' = meetings w \<and> trace w' = trace w @ [UpdateFailed rid P]
       else trace w' = trace w @ [Updated rid P]
            \<and> meetings_update_error env rid P = None
            \<and> (\<exists>r. meetings w rid = Some r \<and> meetings w' = (meetings w)(rid \<mapsto> r ++ map_of P)))"
  using meetingsTable_update_snd[of env rid P w] assms by (simp cong: if_cong)

lemma createTasksFromActionItems_snd:
  "meetings (snd (createTasksFromActionItems env x mid pid w)) = meetings w
   \<and> trace (snd (createTasksFromActionItems env x mid pid w)) =
       trace w @ (if isl (fst (createTasksFromActionItems env x mid pid w))
                  then [Call Materialize, Failed Materialize] else [Call Materialize])
   \<and> (isl (fst (createTasksFromActionItems env x mid pid w))
        \<longrightarrow> tasks (snd (createTasksFromActionItems env x mid pid w)) = tasks w)"
  by (simp add: createTasksFromActionItems_def tasksTable_create_def Let_def
      split: nullable.splits list.splits option.splits)

lemma createTasksFromActionItems_effect:
  assumes "createTasksFromActionItems env x mid pid w = (r, w')"
  shows "meetings w' = meetings w
   \<and> trace w' = trace w @ (if isl r then [Call Materialize, Failed Materialize] else [Call Materialize])
   \<and> (isl r \<longrightarrow> tasks w' = tasks w)"
  using createTasksFromActionItems_snd[of env x mid pid w] assms by simp

lemma processAIAnalysis_trace:
  assumes "processAIAnalysis env f title ps mid pid w = (r, w')"
  shows "\<exists>evs. trace w' = trace w @ evs \<and>
    (if isl r then failed_analysis_events mid evs else completed_analysis_events mid evs)"
proof -
  obtain r0 w0 where s0: "processCompleteeMeeting env f title ps w = (r0, w0)" by fastforce
  note e0 = processCompleteeMeeting_effect[OF s0]
  show ?thesis
  proof (cases r0)
    case (Inl e)
    with s0 assms have "r = Inl e" "w' = w0" by (simp_all add: processAIAnalysis_def)
    with e0 Inl show ?thesis
          unfolding failed_analysis_events_def completed_analysis_events_def by auto
  next
    case (Inr res)
    with e0 have t0: "trace w0 = trace w @ [Call Transcribe, Call Minutes, Call Extract, Call Summarize]"
      by simp
    show ?thesis
    proof (cases "getTable env")
      case gl: (Inl e)
      with s0 Inr assms have "r = Inl e" "w' = w0" by (simp_all add: processAIAnalysis_def)
      with t0 show ?thesis
          unfolding failed_analysis_events_def completed_analysis_events_def by simp
    next
      case gr: (Inr u)
      let ?P1 = "[(TRANSCRIPT, Text (text_of (transcription res))), (MOM, Text (mom res)),
                  (SUMMARY, Text (emailSummary res))]"
      obtain r1 w1 where s1: "meetingsTable_update env mid ?P1 w0 = (r1, w1)" by fastforce
      note e1 = meetingsTable_update_effect[OF s1]
      have k: "map fst ?P1 = [TRANSCRIPT, MOM, SUMMARY]" by simp
      show ?thesis
      proof (cases r1)
        case (Inl e)
        with s0 Inr gr s1 assms have "r = Inl e" "w' = w1" by (simp_all add: processAIAnalysis_def)
        moreover from e1 Inl t0 have "trace w1 = trace w @ [Call Transcribe, Call Minutes,
            Call Extract, Call Summarize, UpdateFailed mid ?P1]" by simp
        ultimately show ?thesis
          unfolding failed_analysis_events_def completed_analysis_events_def using k by simp
      next
        case u1: (Inr u1)
        with e1 t0 have t1: "trace w1 = trace w @ [Call Transcribe, Call Minutes, Call Extract,
            Call Summarize, Updated mid ?P1]" by simp
        show ?thesis
        proof (cases "length (actionItems res) > 0")
          case False
          with s0 Inr gr s1 u1 assms have "r = Inr ()" "w' = w1"
            by (simp_all add: processAIAnalysis_def)
          with t1 k show ?thesis
          unfolding failed_analysis_events_def completed_analysis_events_def by simp
        next
          case True
          obtain r2 w2 where s2: "createTasksFromActionItems env (Val (actionItems res)) mid pid w1
              = (r2, w2)" by fastforce
          note e2 = createTasksFromActionItems_effect[OF s2]
          show ?thesis
          proof (cases r2)
            case (Inl e)
            with s0 Inr gr s1 u1 True s2 assms have "r = Inl e" "w' = w2"
              by (simp_all add: processAIAnalysis_def)
            moreover from e2 Inl t1 have "trace w2 = trace w @ [Call Transcribe, Call Minutes,
              Call Extract, Call Summarize, Updated mid ?P1, Call Materialize, Failed Materialize]"
              by simp
            ultimately show ?thesis
          unfolding failed_analysis_events_def completed_analysis_events_def using k by simp
          next
            case ts: (Inr ts)
            with e2 t1 have t2: "trace w2 = trace w @ [Call Transcribe, Call Minutes,
              Call Extract, Call Summarize, Updated mid ?P1, Call Materialize]" by simp
            let ?P2 = "[(ACTION_POINTS, Links (map task_id ts))]"
            obtain r3 w3 where s3: "meetingsTable_update env mid ?P2 w2 = (r3, w3)" by fastforce
            note e3 = meetingsTable_update_effect[OF s3]
            from s0 Inr gr s1 u1 True s2 ts s3 assms have rw: "r = r3" "w' = w3"
              by (simp_all add: processAIAnalysis_def split: sum.splits)
            show ?thesis
            proof (cases r3)
              case (Inl e)
              with e3 t2 have "trace w3 = trace w @ [Call Transcribe, Call Minutes,
                Call Extract, Call Summarize, Updated mid ?P1, Call Materialize,
                UpdateFailed mid ?P2]" by simp
              with rw Inl k show ?thesis
          unfolding failed_analysis_events_def completed_analysis_events_def by simp
            next
              case (Inr u3)
              with e3 t2 have "trace w3 = trace w @ [Call Transcribe, Call Minutes,
                Call Extract, Call Summarize, Updated mid ?P1, Call Materialize,
                Updated mid ?P2]" by simp
              with rw Inr k show ?thesis
          unfolding failed_analysis_events_def completed_analysis_events_def by simp
            qed
          qed
        qed
      qed
    qed
  qed
qed

lemma new_events_append: "trace w' = trace w @ evs \<Longrightarrow> new_events w w' = evs"
  by (simp add: new_events_def)

lemma upload_background_events:
  assumes "processAIAnalysis env f title (upload_participants participants) mid pid w = (r, w1)"
  shows "upload_background env f title participants mid pid w =
           (case r of Inr u \<Rightarrow> w1
            | Inl e \<Rightarrow> snd (meetingsTable_update env mid [(MOM, Text (failure_marker e))] w1))"
    and "trace (upload_background env f title participants mid pid w) =
           trace w1 @ (case r of Inr u \<Rightarrow> []
             | Inl e \<Rightarrow>
                 [if isl (fst (meetingsTable_update env mid [(MOM, Text (failure_marker e))] w1))
                  then UpdateFailed mid [(MOM, Text (failure_marker e))]
                  else Updated mid [(MOM, Text (failure_marker e))]])"
  using assms meetingsTable_update_snd[of env mid _ w1]
  by (auto simp: upload_background_def split: sum.splits)

lemma meetingsTable_update_field:
  "meeting_field (snd (meetingsTable_update env mid P w)) rid f =
     (if meetings_update_error env mid P = None \<and> meetings w mid \<noteq> None \<and> rid = mid
         \<and> map_of P f \<noteq> None
      then map_of P f else meeting_field w rid f)"
  by (auto simp: meetingsTable_update_def meeting_field_def map_add_def
      split: option.splits)

lemma processAIAnalysis_stage_failure:
  assumes "fst (processCompleteeMeeting env f title ps w) = Inl e"
  shows "processAIAnalysis env f title ps mid pid w =
           (Inl e, snd (processCompleteeMeeting env f title ps w))"
  using assms by (cases "processCompleteeMeeting env f title ps w")
    (simp add: processAIAnalysis_def)

lemma processCompleteeMeeting_minutes_failure:
  assumes "fst (transcribeAudio env f w) = Inr t"
    and "fst (generateMOM env (text_of t) title ps (snd (transcribeAudio env f w))) = Inl e"
  shows "fst (processCompleteeMeeting env f title ps w) = Inl e"
  using assms
  by (cases "transcribeAudio env f w";
      cases "generateMOM env (text_of t) title ps (snd (transcribeAudio env f w))")
     (simp add: processCompleteeMeeting_def)


lemma meetingsTable_update_trace:
  "trace (snd (meetingsTable_update env rid P w)) =
     trace w @ [if isl (fst (meetingsTable_update env rid P w))
                then UpdateFailed rid P else Updated rid P]"
  by (simp add: meetingsTable_update_def split: option.splits)

lemma meetingsTable_update_tasks:
  "tasks (snd (meetingsTable_update env rid P w)) = tasks w"
  by (simp add: meetingsTable_update_def split: option.splits)

lemma meetingsTable_update_accepted:
  "isl (fst (meetingsTable_update env rid P w)) \<longleftrightarrow>
     \<not> (meetings_update_error env rid P = None \<and> meetings w rid \<noteq> None)"
  by (simp add: meetingsTable_update_def split: option.splits)



lemma createTasksFromActionItems_success:
  assumes "isAirtableConfigured env"
    and "tasks_create_error env (map (task_fields_of env meetingId projectId) items) = None"
  shows "createTasksFromActionItems env (Val items) meetingId projectId w =
     (Inr (map formatTaskRecord
             (zip (map (\<lambda>i. new_record_id env (length (tasks w) + i)) [0..<length items])
                  (map (task_fields_of env meetingId projectId) items))),
      (emit (Call Materialize) w)
        \<lparr>tasks := tasks w @
           zip (map (\<lambda>i. new_record_id env (length (tasks w) + i)) [0..<length items])
               (map (task_fields_of env meetingId projectId) items)\<rparr>)"
proof (cases items)
  case Nil
  with assms show ?thesis
    by (simp add: createTasksFromActionItems_def Let_def emit_def)
next
  case (Cons item rest)
  with assms show ?thesis
    unfolding createTasksFromActionItems_def tasksTable_create_def Let_def
    by (simp add: emit_def del: upt_Suc)
qed



lemma createTasksFromActionItems_result:
  assumes "createTasksFromActionItems env (Val items) mid pid w = (Inr ts, w')"
  shows "tasks w' = tasks w @ zip (new_ids env w (length items)) (map (task_fields_of env mid pid) items)
    \<and> map task_id ts = new_ids env w (length items)
    \<and> meetings w' = meetings w
    \<and> trace w' = trace w @ [Call Materialize]"
proof (cases items)
  case Nil
  with assms show ?thesis
    by (auto simp: createTasksFromActionItems_def Let_def new_ids_def split: if_splits)
next
  case (Cons item rest)
  with assms show ?thesis
    unfolding createTasksFromActionItems_def tasksTable_create_def Let_def new_ids_def
    by (auto simp: formatTaskRecord_def comp_def map_fst_zip case_prod_beta
        split: if_splits option.splits simp del: upt_Suc)
qed


lemma results_payload_keys:
  "map_of (results_payload res) TRANSCRIPT = Some (Text (text_of (transcription res)))"
  "map_of (results_payload res) MOM = Some (Text (mom res))"
  "map_of (results_payload res) SUMMARY = Some (Text (emailSummary res))"
  "map_of (results_payload res) ACTION_POINTS = None"
  by (simp_all add: results_payload_def TRANSCRIPT_def MOM_def SUMMARY_def ACTION_POINTS_def)

lemma processAIAnalysis_after_stages:
  assumes pcm: "processCompleteeMeeting env f title ps w = (Inr res, w0)"
    and pa: "processAIAnalysis env f title ps mid pid w = (r, w1)"
  shows "isl r \<and> tasks w1 = tasks w \<and> trace w1 = trace w @ stage_calls
    \<or> isl r \<and> tasks w1 = tasks w
        \<and> trace w1 = trace w @ stage_calls @ [UpdateFailed mid (results_payload res)]
    \<or> r = Inr () \<and> actionItems res = [] \<and> tasks w1 = tasks w
        \<and> trace w1 = trace w @ stage_calls @ [Updated mid (results_payload res)]
    \<or> isl r \<and> tasks w1 = tasks w
        \<and> trace w1 =
             trace w @ stage_calls @ [Updated mid (results_payload res), Call Materialize, Failed Materialize]
    \<or> isl r \<and> actionItems res \<noteq> []
        \<and> length (created_ids w w1) = length (actionItems res)
        \<and> trace w1 =
             trace w @ stage_calls @ [Updated mid (results_payload res), Call Materialize,
                            UpdateFailed mid [(ACTION_POINTS, Links (created_ids w w1))]]
    \<or> r = Inr () \<and> actionItems res \<noteq> []
        \<and> length (created_ids w w1) = length (actionItems res)
        \<and> trace w1 =
             trace w @ stage_calls @ [Updated mid (results_payload res), Call Materialize,
                            Updated mid [(ACTION_POINTS, Links (created_ids w w1))]]"
proof -
  note e0 = processCompleteeMeeting_effect[OF pcm]
  have t0: "trace w0 = trace w @ stage_calls" and k0: "tasks w0 = tasks w"
    using e0 by (simp_all add: stage_calls_def)
  let ?P1 = "results_payload res"
  have P1: "[(TRANSCRIPT, Text (text_of (transcription res))), (MOM, Text (mom res)),
             (SUMMARY, Text (emailSummary res))] = ?P1"
    by (simp add: results_payload_def)
  show ?thesis
  proof (cases "getTable env")
    case (Inl e)
    with pcm pa have "r = Inl e" "w1 = w0" by (simp_all add: processAIAnalysis_def)
    with t0 k0 show ?thesis by simp
  next
    case gr: (Inr u)
    obtain r1 w2 where s1: "meetingsTable_update env mid ?P1 w0 = (r1, w2)" by fastforce
    note e1 = meetingsTable_update_effect[OF s1]
    have k2: "tasks w2 = tasks w" using e1 k0 by simp
    show ?thesis
    proof (cases r1)
      case (Inl e)
      with pcm gr s1 pa have "r = Inl e" "w1 = w2"
        by (simp_all add: processAIAnalysis_def P1)
      moreover from e1 Inl t0 have "trace w2 = trace w @ stage_calls @ [UpdateFailed mid ?P1]"
        by simp
      ultimately show ?thesis using k2 by simp
    next
      case u1: (Inr u1)
      with e1 t0 have t2: "trace w2 = trace w @ stage_calls @ [Updated mid ?P1]" by simp
      show ?thesis
      proof (cases "actionItems res = []")
        case True
        with pcm gr s1 u1 pa have "r = Inr ()" "w1 = w2"
          by (simp_all add: processAIAnalysis_def P1)
        with t2 k2 True show ?thesis by simp
      next
        case False
        obtain r2 w3 where s2: "createTasksFromActionItems env (Val (actionItems res)) mid pid w2
            = (r2, w3)" by fastforce
        note e2 = createTasksFromActionItems_effect[OF s2]
        show ?thesis
        proof (cases r2)
          case (Inl e)
          with pcm gr s1 u1 False s2 pa have "r = Inl e" "w1 = w3"
            by (simp_all add: processAIAnalysis_def P1)
          moreover from e2 Inl t2 have "trace w3 = trace w @ stage_calls
              @ [Updated mid ?P1, Call Materialize, Failed Materialize]"
            by simp
          moreover from e2 Inl k2 have "tasks w3 = tasks w" by simp
          ultimately show ?thesis by simp
        next
          case ts: (Inr ts)
          from s2 ts have s2': "createTasksFromActionItems env (Val (actionItems res)) mid pid w2
            = (Inr ts, w3)" by simp
          note c2 = createTasksFromActionItems_result[OF s2']
          have t3: "trace w3 = trace w @ stage_calls @ [Updated mid ?P1, Call Materialize]"
            using c2 t2 by simp
          have ids: "map task_id ts = map fst (drop (length (tasks w)) (tasks w3))"
            and len: "length (drop (length (tasks w)) (tasks w3)) = length (actionItems res)"
            using c2 k2 by (simp_all add: new_ids_def)
          let ?P2 = "[(ACTION_POINTS, Links (map task_id ts))]"
          obtain r3 w4 where s3: "meetingsTable_update env mid ?P2 w3 = (r3, w4)" by fastforce
          note e3 = meetingsTable_update_effect[OF s3]
          from pcm gr s1 u1 False s2 ts s3 pa have rw: "r = r3" "w1 = w4"
            by (simp_all add: processAIAnalysis_def P1 split: sum.splits)
          have k4: "tasks w4 = tasks w3" using e3 by simp
          have cr: "created_ids w w1 = map task_id ts"
            "length (created_ids w w1) = length (actionItems res)"
            using ids len by (simp_all add: created_ids_def rw k4)
          show ?thesis
          proof (cases r3)
            case (Inl e)
            with e3 t3 have "trace w4 = trace w @ stage_calls
                @ [Updated mid ?P1, Call Materialize, UpdateFailed mid ?P2]" by simp
            with rw Inl False cr show ?thesis by simp
          next
            case (Inr u3)
            with e3 t3 have "trace w4 = trace w @ stage_calls
                @ [Updated mid ?P1, Call Materialize, Updated mid ?P2]" by simp
            with rw Inr False cr show ?thesis by simp
          qed
        qed
      qed
    qed
  qed
qed


lemma processAIAnalysis_stage_failure_events:
  assumes pcm: "fst (processCompleteeMeeting env f title ps w) = Inl e"
    and pa: "processAIAnalysis env f title ps mid pid w = (r, w1)"
  shows "r = Inl e \<and> tasks w1 = tasks w
    \<and> (trace w1 = trace w @ [Call Transcribe, Failed Transcribe]
       \<or> trace w1 = trace w @ [Call Transcribe, Call Minutes, Failed Minutes]
       \<or> trace w1 = trace w @ [Call Transcribe, Call Minutes, Call Extract, Failed Extract]
       \<or> trace w1 = trace w @ [Call Transcribe, Call Minutes, Call Extract, Call Summarize,
                             Failed Summarize])"
proof -
  let ?w0 = "snd (processCompleteeMeeting env f title ps w)"
  have pc: "processCompleteeMeeting env f title ps w = (Inl e, ?w0)"
    using pcm by (metis prod.collapse)
  note e0 = processCompleteeMeeting_effect[OF pc]
  from processAIAnalysis_stage_failure[OF pcm, of mid pid] pa have "r = Inl e" "w1 = ?w0"
    by simp_all
  with e0 show ?thesis by auto
qed

lemma processAIAnalysis_success:
  assumes pcm: "processCompleteeMeeting env f title ps w = (Inr res, w0)"
    and c: "isAirtableConfigured env"
    and m: "meetings w mid \<noteq> None"
    and u1: "meetings_update_error env mid (results_payload res) = None"
    and rest: "actionItems res = []
       \<or> tasks_create_error env (map (task_fields_of env mid pid) (actionItems res)) = None
         \<and> meetings_update_error env mid
              [(ACTION_POINTS, Links (new_ids env w (length (actionItems res))))] = None"
    and pa: "processAIAnalysis env f title ps mid pid w = (r, w1)"
  shows "r = Inr ()
    \<and> trace w1 =
        trace w @ stage_calls @ Updated mid (results_payload res)
          # (if actionItems res = [] then []
             else [Call Materialize,
                   Updated mid [(ACTION_POINTS, Links (new_ids env w (length (actionItems res))))]])
    \<and> meeting_field w1 mid TRANSCRIPT = Some (Text (text_of (transcription res)))
    \<and> meeting_field w1 mid MOM = Some (Text (mom res))
    \<and> meeting_field w1 mid SUMMARY = Some (Text (emailSummary res))
    \<and> (if actionItems res = []
        then tasks w1 = tasks w
             \<and> meeting_field w1 mid ACTION_POINTS = meeting_field w mid ACTION_POINTS
        else tasks w1 = tasks w @ zip (new_ids env w (length (actionItems res)))
                                      (map (task_fields_of env mid pid) (actionItems res))
             \<and> meeting_field w1 mid ACTION_POINTS =
                 Some (Links (new_ids env w (length (actionItems res)))))"
proof -
  note e0 = processCompleteeMeeting_effect[OF pcm]
  have t0: "trace w0 = trace w @ stage_calls" and k0: "tasks w0 = tasks w"
    and m0: "meetings w0 = meetings w"
    using e0 by (simp_all add: stage_calls_def)
  have f0: "meeting_field w0 rid fld = meeting_field w rid fld" for rid fld
    by (simp add: meeting_field_def m0)
  let ?P1 = "results_payload res"
  have P1: "[(TRANSCRIPT, Text (text_of (transcription res))), (MOM, Text (mom res)),
             (SUMMARY, Text (emailSummary res))] = ?P1"
    by (simp add: results_payload_def)
  have g: "getTable env = Inr ()" using c by (simp add: getTable_def)
  have a1: "\<not> isl (fst (meetingsTable_update env mid ?P1 w0))"
    using u1 m m0 by (simp add: meetingsTable_update_accepted)
  then obtain w2 where s1: "meetingsTable_update env mid ?P1 w0 = (Inr (), w2)"
    by (cases "meetingsTable_update env mid ?P1 w0";
        cases "fst (meetingsTable_update env mid ?P1 w0)") auto
  then have w2: "w2 = snd (meetingsTable_update env mid ?P1 w0)" by simp
  have t2: "trace w2 = trace w @ stage_calls @ [Updated mid ?P1]"
    unfolding w2 using a1 by (simp add: meetingsTable_update_trace t0)
  have k2: "tasks w2 = tasks w" unfolding w2 by (simp add: meetingsTable_update_tasks k0)
  have f2: "meeting_field w2 mid fld =
      (if map_of ?P1 fld \<noteq> None then map_of ?P1 fld else meeting_field w mid fld)" for fld
    unfolding w2 using u1 m m0 by (simp add: meetingsTable_update_field f0)
  have m2: "meetings w2 mid \<noteq> None"
    unfolding w2 using u1 m m0 by (auto simp: meetingsTable_update_def split: option.splits)
  show ?thesis
  proof (cases "actionItems res = []")
    case True
    with pcm g s1 pa have "r = Inr ()" "w1 = w2"
      by (simp_all add: processAIAnalysis_def P1)
    with True t2 k2 show ?thesis
      by (simp add: f2 results_payload_keys)
  next
    case False
    let ?items = "actionItems res"
    let ?ids = "new_ids env w (length ?items)"
    from False rest have
      cr: "tasks_create_error env (map (task_fields_of env mid pid) ?items) = None"
      and u2: "meetings_update_error env mid [(ACTION_POINTS, Links ?ids)] = None"
      by simp_all
    obtain ts w3 where s2: "createTasksFromActionItems env (Val ?items) mid pid w2 = (Inr ts, w3)"
      using createTasksFromActionItems_success[OF c cr, of w2] by blast
    note c2 = createTasksFromActionItems_result[OF s2]
    have same_ids: "new_ids env w2 (length ?items) = ?ids"
      by (simp add: new_ids_def k2)
    have ids: "map task_id ts = ?ids" using c2 same_ids by simp
    have k3: "tasks w3 = tasks w @ zip ?ids (map (task_fields_of env mid pid) ?items)"
      using c2 same_ids k2 by simp
    have t3: "trace w3 = trace w @ stage_calls @ [Updated mid ?P1, Call Materialize]"
      using c2 t2 by simp
    have m3: "meetings w3 = meetings w2" using c2 by simp
    have f3: "meeting_field w3 rid fld = meeting_field w2 rid fld" for rid fld
      by (simp add: meeting_field_def m3)
    let ?P2 = "[(ACTION_POINTS, Links ?ids)]"
    have a2: "\<not> isl (fst (meetingsTable_update env mid ?P2 w3))"
      using u2 m2 m3 by (simp add: meetingsTable_update_accepted)
    then obtain w4 where s3: "meetingsTable_update env mid ?P2 w3 = (Inr (), w4)"
      by (cases "meetingsTable_update env mid ?P2 w3";
          cases "fst (meetingsTable_update env mid ?P2 w3)") auto
    then have w4: "w4 = snd (meetingsTable_update env mid ?P2 w3)" by simp
    have t4: "trace w4 = trace w @ stage_calls
        @ [Updated mid ?P1, Call Materialize, Updated mid ?P2]"
      unfolding w4 using a2 by (simp add: meetingsTable_update_trace t3)
    have k4: "tasks w4 = tasks w @ zip ?ids (map (task_fields_of env mid pid) ?items)"
      unfolding w4 by (simp add: meetingsTable_update_tasks k3)
    have f4: "meeting_field w4 mid fld =
        (if fld = ACTION_POINTS then Some (Links ?ids) else meeting_field w2 mid fld)" for fld
      unfolding w4 using u2 m2 m3 by (simp add: meetingsTable_update_field f3)
    have keys: "TRANSCRIPT \<noteq> ACTION_POINTS" "MOM \<noteq> ACTION_POINTS" "SUMMARY \<noteq> ACTION_POINTS"
      by (simp_all add: TRANSCRIPT_def MOM_def SUMMARY_def ACTION_POINTS_def)
    from pcm g s1 False s2 s3 pa ids have "r = Inr ()" "w1 = w4"
      by (simp_all add: processAIAnalysis_def P1)
    with False t4 k4 keys show ?thesis
      by (simp add: f4 f2 results_payload_keys)
  qed
qed

subsection \<open>Unfolding the definitions on the sample run\<close>

lemmas run_defs =
  upload_background_def upload_participants_def processAIAnalysis_def processCompleteeMeeting_def
  transcribeAudio_def generateMOM_def extractActionItems_def generateEmailSummary_def
  createTasksFromActionItems_def meetingsTable_update_def tasksTable_create_def
  whisper_request_def chat_request_def getTable_def isOpenAIConfigured_def isAirtableConfigured_def
  transcribe_catch_def mom_catch_def extract_catch_def summary_catch_def AppError_def Error_def APIError_def
  failure_marker_def emit_def new_events_def meeting_field_def Let_def
  TRANSCRIPT_def MOM_def SUMMARY_def ACTION_POINTS_def formatTaskRecord_def task_fields_of_def
  js_or_def TASK_STATUS_PENDING_def TASK_PRIORITY_MEDIUM_def rate_limit_message_def stage_order_def

lemmas fixture_defs =
  good_env_def world0_def sample_reply_def item_a_def item_b_def provider_down_def
  minutes_down_env_def store_down_env_def no_items_env_def summary_down_env_def
  world_rerun_def

subsection \<open>Participants\<close>

lemma js_split_nonempty: "js_split s \<noteq> []"
  by (induction s) auto

lemma js_join_split: "js_join '','' (js_split s) = s"
proof (induction s)
  case Nil
  show ?case by simp
next
  case (Cons c cs)
  obtain e es where es: "js_split cs = e # es"
    using js_split_nonempty[of cs] by (cases "js_split cs") auto
  with Cons show ?case by (cases es) auto
qed

lemma js_split_no_comma: "e \<in> set (js_split s) \<Longrightarrow> CHR '','' \<notin> set e"
proof (induction s arbitrary: e)
  case Nil
  then show ?case by simp
next
  case (Cons c cs)
  obtain f fs where fs: "js_split cs = f # fs"
    using js_split_nonempty[of cs] by (cases "js_split cs") auto
  with Cons show ?case by (auto split: if_splits)
qed

lemma trim_empty_iff: "trim e = [] \<longleftrightarrow> (\<forall>c \<in> set e. is_js_space c)"
proof
  assume t: "trim e = []"
  let ?d = "dropWhile is_js_space e"
  have "?d = []"
  proof (rule ccontr)
    assume ne: "?d \<noteq> []"
    then have "\<not> is_js_space (hd ?d)"
      by (rule hd_dropWhile)
    moreover have "hd ?d \<in> set (rev ?d)"
      using ne by simp
    moreover from t have "\<forall>c \<in> set (rev ?d). is_js_space c"
      unfolding trim_def by (metis dropWhile_eq_Nil_conv rev_is_Nil_conv)
    ultimately show False by blast
  qed
  then show "\<forall>c \<in> set e. is_js_space c"
    by (metis dropWhile_eq_Nil_conv)
next
  assume "\<forall>c \<in> set e. is_js_space c"
  then have d: "dropWhile is_js_space e = []"
    by (metis dropWhile_eq_Nil_conv)
  show "trim e = []" unfolding trim_def d by simp
qed

lemma trim_ends:
  assumes "trim e \<noteq> []"
  shows "\<not> is_js_space (hd (trim e)) \<and> \<not> is_js_space (last (trim e))"
proof -
  let ?d = "dropWhile is_js_space e"
  let ?r = "dropWhile is_js_space (rev ?d)"
  from assms have r: "?r \<noteq> []" unfolding trim_def by (metis rev_is_Nil_conv)
  then have d: "?d \<noteq> []" by (metis dropWhile.simps(1) rev_is_Nil_conv)
  have "last (trim e) = hd ?r" using r unfolding trim_def by (metis last_rev)
  moreover have "\<not> is_js_space (hd ?r)" using r by (rule hd_dropWhile)
  moreover have "hd (trim e) = last ?r" using r unfolding trim_def by (metis hd_rev)
  moreover have "last ?r = last (rev ?d)" using r by (metis dropWhile_last dropWhile_eq_Nil_conv)
  moreover have "last (rev ?d) = hd ?d" using d by (metis last_rev)
  moreover have "\<not> is_js_space (hd ?d)" using d by (rule hd_dropWhile)
  ultimately show ?thesis by simp
qed

lemma parseParticipants_string:
  "parseParticipants (JString s) =
     map trim (filter (\<lambda>e. \<not> (\<forall>c \<in> set e. is_js_space c)) (js_split s))"
  by (simp add: filter_map comp_def trim_empty_iff)

lemma parseParticipants_elements:
  assumes "p \<in> set (parseParticipants v)"
  shows "p \<noteq> [] \<and> \<not> is_js_space (hd p) \<and> \<not> is_js_space (last p)"
proof (cases v)
  case (JString s)
  with assms obtain e where "p = trim e" and "trim e \<noteq> []"
    by (auto split: if_splits)
  then show ?thesis using trim_ends by simp
qed (use assms in auto)

text \<open>
  C10. \<open>parseParticipants\<close> always returns an array. For \<open>undefined\<close>, \<open>null\<close> and every
  non-string value it is empty. For a string it holds, in order, the trimmed
  comma-separated entries of the string that are not made of white space only (the entries
  are the comma-free pieces whose join with commas is the string), so no element is the
  empty string, and no element starts or ends with white space.
\<close>

theorem parseParticipants_entries:
  "parseParticipants JUndefined = []
   \<and> parseParticipants JNull = []
   \<and> parseParticipants (JBool b) = []
   \<and> parseParticipants (JNumber n) = []
   \<and> parseParticipants JObject = []
   \<and> parseParticipants (JString s) =
       map trim (filter (\<lambda>e. \<not> (\<forall>c \<in> set e. is_js_space c)) (js_split s))
   \<and> js_join '','' (js_split s) = s
   \<and> (\<forall>e \<in> set (js_split s). CHR '','' \<notin> set e)
   \<and> (\<forall>p \<in> set (parseParticipants v).
         p \<noteq> [] \<and> \<not> is_js_space (hd p) \<and> \<not> is_js_space (last p))"
  using parseParticipants_string[of s] js_join_split[of s] js_split_no_comma[of _ s]
    parseParticipants_elements[of _ v]
  by (intro conjI ballI) simp_all

theorem parseParticipants_entries_witness:
  "parseParticipants (JString '' Ann , ,Bob,'') = [''Ann'', ''Bob'']
   \<and> js_split '' Ann , ,Bob,'' = ['' Ann '', '' '', ''Bob'', '''']
   \<and> js_join '','' ['' Ann '', '' '', ''Bob'', ''''] = '' Ann , ,Bob,''
   \<and> parseParticipants JNull = []"
  using parseParticipants_entries[of undefined undefined "'' Ann , ,Bob,''" JNull]
  by (simp add: trim_def is_js_space_def)

subsection \<open>The stage adapters\<close>

text \<open>
  C5. What the claim says of the statuses 429, 401 and 413 is not what the code does. The
  \<open>catch\<close> block of \<open>transcribeAudio\<close> looks for the status under \<open>error.response\<close>, and the
  error the client throws for an HTTP error reply carries it under \<open>error.status\<close>. So
  whatever the status of the provider's answer, the error thrown is
  \<open>Failed to transcribe audio\<close> with status code 500, the same as for every other failure
  and for a missing API key; the three branches of the \<open>catch\<close> block are taken only for
  an error that has a \<open>response\<close>. On success the provider's reply, with its text, is
  returned.
\<close>

theorem transcribeAudio_provider_status_unread:
  "fst (transcribeAudio env audioFile w) =
     (if \<not> isOpenAIConfigured env then Inl (AppError ''Failed to transcribe audio'' 500)
      else case whisper_create env (length (whisper_requests w)) audioFile of
        Inl failure \<Rightarrow> Inl (AppError ''Failed to transcribe audio'' 500)
      | Inr reply \<Rightarrow> Inr reply)
   \<and> transcribe_catch (thrown (HttpError 429 msg)) = AppError ''Failed to transcribe audio'' 500
   \<and> transcribe_catch (thrown (HttpError 401 msg)) = AppError ''Failed to transcribe audio'' 500
   \<and> transcribe_catch (thrown (HttpError 413 msg)) = AppError ''Failed to transcribe audio'' 500
   \<and> transcribe_catch ((Error msg)\<lparr>response_status := Some 429\<rparr>) = AppError rate_limit_message 429
   \<and> transcribe_catch ((Error msg)\<lparr>response_status := Some 401\<rparr>)
       = AppError ''OpenAI API authentication failed'' 500
   \<and> transcribe_catch ((Error msg)\<lparr>response_status := Some 413\<rparr>)
       = AppError ''Audio file too large. Maximum size is 25MB.'' 400"
  by (cases "whisper_create env (length (whisper_requests w)) audioFile";
      cases "projl (whisper_create env (length (whisper_requests w)) audioFile)")
     (simp_all add: transcribeAudio_def whisper_request_def transcribe_catch_def AppError_def
        APIError_def Error_def Let_def)

theorem transcribeAudio_provider_status_unread_witness:
  "fst (transcribeAudio (good_env\<lparr>whisper_create := \<lambda>n f. Inl (HttpError 429 ''Too Many Requests'')\<rparr>)
          ''bytes'' world0)
     = Inl (AppError ''Failed to transcribe audio'' 500)
   \<and> fst (transcribeAudio (good_env\<lparr>whisper_create := \<lambda>n f. Inl (HttpError 401 ''Unauthorized'')\<rparr>)
          ''bytes'' world0)
     = Inl (AppError ''Failed to transcribe audio'' 500)
   \<and> fst (transcribeAudio (good_env\<lparr>whisper_create := \<lambda>n f. Inl (HttpError 413 ''Payload Too Large'')\<rparr>)
          ''bytes'' world0)
     = Inl (AppError ''Failed to transcribe audio'' 500)
   \<and> fst (transcribeAudio (good_env\<lparr>whisper_create := \<lambda>n f. Inl provider_down\<rparr>) ''bytes'' world0)
     = Inl (AppError ''Failed to transcribe audio'' 500)
   \<and> error_status (thrown (HttpError 429 ''Too Many Requests'')) = Some 429
   \<and> response_status (thrown (HttpError 429 ''Too Many Requests'')) = None
   \<and> fst (transcribeAudio good_env ''bytes'' world0) = Inr sample_reply"
  using transcribeAudio_provider_status_unread[of "good_env\<lparr>whisper_create := \<lambda>n f. Inl (HttpError 429 ''Too Many Requests'')\<rparr>" "''bytes''" world0]
    transcribeAudio_provider_status_unread[of "good_env\<lparr>whisper_create := \<lambda>n f. Inl (HttpError 401 ''Unauthorized'')\<rparr>" "''bytes''" world0]
    transcribeAudio_provider_status_unread[of "good_env\<lparr>whisper_create := \<lambda>n f. Inl (HttpError 413 ''Payload Too Large'')\<rparr>" "''bytes''" world0]
    transcribeAudio_provider_status_unread[of "good_env\<lparr>whisper_create := \<lambda>n f. Inl provider_down\<rparr>" "''bytes''" world0]
    transcribeAudio_provider_status_unread[of good_env "''bytes''" world0]
  by (simp add: good_env_def world0_def isOpenAIConfigured_def APIError_def)

text \<open>
  C8. For every participants list, the empty one included, \<open>generateMOM\<close> sends its
  request, and the line of the prompt that names the participants reads
  \<open>Participants: Not specified\<close> when the list is empty and holds the names joined by
  \<open>, \<close> otherwise. The result is the minutes on success and an error on every failure,
  never empty minutes. What the claim says of a rate-limit answer is not what the code
  does: the \<open>catch\<close> block looks for the status 429 under \<open>error.response\<close>, the error the
  client throws carries it under \<open>error.status\<close>, and so the error thrown for a rate-limit
  answer is the generic \<open>Failed to generate Minutes of Meeting\<close> (status code 500), as for
  every other failure.
\<close>

theorem generateMOM_placeholder_and_failures:
  "fst (generateMOM env transcript meetingTitle participants w) =
     (if \<not> isOpenAIConfigured env then Inl (AppError ''Failed to generate Minutes of Meeting'' 500)
      else case chat_create env (length (chat_requests w))
                  (mom_request transcript meetingTitle participants) of
        Inl failure \<Rightarrow> Inl (AppError ''Failed to generate Minutes of Meeting'' 500)
      | Inr minutes \<Rightarrow> Inr minutes)
   \<and> chat_requests (snd (generateMOM env transcript meetingTitle participants w)) =
       (if isOpenAIConfigured env
        then chat_requests w @ [mom_request transcript meetingTitle participants]
        else chat_requests w)
   \<and> (\<exists>rest. user_content (mom_request transcript meetingTitle participants) =
         ''\<newline>Please create comprehensive Minutes of Meeting (MOM) from the following meeting transcript.\<newline>\<newline>Meeting Title: ''
         @ meetingTitle @ ''\<newline>Participants: ''
         @ (if participants = [] then ''Not specified'' else js_join '', '' participants)
         @ ''\<newline>\<newline>Transcript:\<newline>'' @ transcript @ rest)
   \<and> mom_catch (thrown (HttpError 429 msg)) = AppError ''Failed to generate Minutes of Meeting'' 500
   \<and> mom_catch ((Error msg)\<lparr>response_status := Some 429\<rparr>) = AppError rate_limit_message 429"
  by (cases "chat_create env (length (chat_requests w))
               (mom_request transcript meetingTitle participants)";
      cases "projl (chat_create env (length (chat_requests w))
               (mom_request transcript meetingTitle participants))")
     (simp_all add: generateMOM_def chat_request_def mom_catch_def AppError_def APIError_def
        Error_def Let_def mom_request_def mom_prompt_def)

theorem generateMOM_placeholder_and_failures_witness:
  "fst (generateMOM good_env ''Thanks everyone.'' ''Weekly'' [] world0) = Inr ''MINUTES''
   \<and> map user_content (chat_requests (snd (generateMOM good_env ''Thanks everyone.'' ''Weekly'' [] world0)))
       = [''\<newline>Please create comprehensive Minutes of Meeting (MOM) from the following meeting transcript.\<newline>\<newline>Meeting Title: Weekly\<newline>Participants: Not specified\<newline>\<newline>Transcript:\<newline>Thanks everyone.\<newline>\<newline>Please format the MOM with the following structure:\<newline>1. Meeting Overview\<newline>2. Attendees\<newline>3. Key Discussion Points\<newline>4. Decisions Made\<newline>5. Action Items (with responsible persons if mentioned)\<newline>6. Next Steps\<newline>7. Next Meeting (if mentioned)\<newline>\<newline>Make it professional, concise, and well-organized.\<newline>'']
   \<and> fst (generateMOM (good_env\<lparr>chat_create := \<lambda>n req. Inl (HttpError 429 ''Too Many Requests'')\<rparr>)
            ''Thanks everyone.'' ''Weekly'' [] world0)
       = Inl (AppError ''Failed to generate Minutes of Meeting'' 500)
   \<and> fst (generateMOM (good_env\<lparr>chat_create := \<lambda>n req. Inl (HttpError 429 ''Too Many Requests'')\<rparr>)
            ''Thanks everyone.'' ''Weekly'' [''Ann'', ''Bob''] world0)
       = Inl (AppError ''Failed to generate Minutes of Meeting'' 500)
   \<and> fst (generateMOM minutes_down_env ''Thanks everyone.'' ''Weekly'' [''Ann'', ''Bob''] world0)
       = Inl (AppError ''Failed to generate Minutes of Meeting'' 500)"
  using generateMOM_placeholder_and_failures[of good_env "''Thanks everyone.''" "''Weekly''" "[]" world0]
    generateMOM_placeholder_and_failures[of "good_env\<lparr>chat_create := \<lambda>n req. Inl (HttpError 429 ''Too Many Requests'')\<rparr>" "''Thanks everyone.''" "''Weekly''" "[]" world0]
    generateMOM_placeholder_and_failures[of "good_env\<lparr>chat_create := \<lambda>n req. Inl (HttpError 429 ''Too Many Requests'')\<rparr>" "''Thanks everyone.''" "''Weekly''" "[''Ann'', ''Bob'']" world0]
    generateMOM_placeholder_and_failures[of minutes_down_env "''Thanks everyone.''" "''Weekly''" "[''Ann'', ''Bob'']" world0]
  by (simp add: run_defs fixture_defs mom_request_def mom_prompt_def)




subsection \<open>The task materializer\<close>

text \<open>
  C4, as the code has it. When Airtable is configured and the base accepts the batch,
  \<open>createTasksFromActionItems\<close> stores and returns exactly one task per action item, in
  order, with: the name the item's task; the owner the item's assignee, or null when the
  assignee is exactly \<open>Not specified\<close>; the deadline likewise; the description
  \<open>Auto-generated from meeting action item: \<close> followed by the task; the priority the
  item's priority, or \<open>medium\<close> when that is missing, null or the empty string; the status
  \<open>pending\<close>; the team the project id; and the source meeting the one-element list of the
  meeting id when that is a non-empty string, and unset when it is empty.
\<close>

theorem createTasksFromActionItems_fields:
  assumes "isAirtableConfigured env"
    and "tasks_create_error env (map (task_fields_of env meetingId projectId) items) = None"
  shows "\<exists>created w'.
     createTasksFromActionItems env (Val items) meetingId projectId w = (Inr created, w')
     \<and> length created = length items
     \<and> tasks w' = tasks w @ zip (map task_id created) (map (task_fields_of env meetingId projectId) items)
     \<and> (\<forall>i < length items.
          name (created ! i) = task (items ! i)
          \<and> owner_id (created ! i) =
              (if assignee (items ! i) = Val ''Not specified'' then Null else assignee (items ! i))
          \<and> task_deadline (created ! i) =
              (if deadline (items ! i) = Val ''Not specified'' then Null else deadline (items ! i))
          \<and> description (created ! i) =
              ''Auto-generated from meeting action item: '' @ task (items ! i)
          \<and> task_priority (created ! i) =
              (case priority (items ! i) of
                 Val p \<Rightarrow> if p = [] then Val ''medium'' else Val p
               | Null \<Rightarrow> Val ''medium''
               | Undefined \<Rightarrow> Val ''medium'')
          \<and> status (created ! i) = ''pending''
          \<and> team (created ! i) = projectId
          \<and> source_meeting (created ! i) =
              (if meetingId = [] then Undefined else Val [meetingId]))"
proof -
  let ?ids = "map (\<lambda>i. new_record_id env (length (tasks w) + i)) [0..<length items]"
  let ?fs = "map (task_fields_of env meetingId projectId) items"
  let ?created = "map formatTaskRecord (zip ?ids ?fs)"
  have ids: "map task_id ?created = ?ids"
    by (simp add: formatTaskRecord_def comp_def map_fst_zip case_prod_beta)
  have run: "createTasksFromActionItems env (Val items) meetingId projectId w =
      (Inr ?created, (emit (Call Materialize) w)\<lparr>tasks := tasks w @ zip ?ids ?fs\<rparr>)"
    using createTasksFromActionItems_success[OF assms] .
  have fields: "\<And>i. i < length items \<Longrightarrow>
      ?created ! i = formatTaskRecord (?ids ! i, task_fields_of env meetingId projectId (items ! i))"
    by simp
  have each: "name (?created ! i) = task (items ! i)
      \<and> owner_id (?created ! i) =
          (if assignee (items ! i) = Val ''Not specified'' then Null else assignee (items ! i))
      \<and> task_deadline (?created ! i) =
          (if deadline (items ! i) = Val ''Not specified'' then Null else deadline (items ! i))
      \<and> description (?created ! i) =
          ''Auto-generated from meeting action item: '' @ task (items ! i)
      \<and> task_priority (?created ! i) =
          (case priority (items ! i) of
             Val p \<Rightarrow> if p = [] then Val ''medium'' else Val p
           | Null \<Rightarrow> Val ''medium''
           | Undefined \<Rightarrow> Val ''medium'')
      \<and> status (?created ! i) = ''pending''
      \<and> team (?created ! i) = projectId
      \<and> source_meeting (?created ! i) =
          (if meetingId = [] then Undefined else Val [meetingId])"
    if "i < length items" for i
    using fields[OF that]
    by (simp add: formatTaskRecord_def task_fields_of_def js_or_def TASK_STATUS_PENDING_def
        TASK_PRIORITY_MEDIUM_def split: nullable.splits)
  have "length ?created = length items" by simp
  moreover have "tasks ((emit (Call Materialize) w)\<lparr>tasks := tasks w @ zip ?ids ?fs\<rparr>) =
      tasks w @ zip (map task_id ?created) ?fs"
    unfolding ids by simp
  ultimately show ?thesis
    using run each by blast
qed

theorem createTasksFromActionItems_fields_witness:
  "isAirtableConfigured good_env
   \<and> tasks_create_error good_env (map (task_fields_of good_env ''m1'' ''p1'') [item_a, item_b]) = None
   \<and> fst (createTasksFromActionItems good_env (Val [item_a, item_b]) ''m1'' ''p1'' world0) =
       Inr [\<lparr>task_id = ''rec0'', name = ''Send the report'', owner_id = Val ''Alice'',
              status = ''pending'', task_deadline = Val ''Friday'', source_meeting = Val [''m1''],
              team = ''p1'',
              description = ''Auto-generated from meeting action item: Send the report'',
              task_priority = Val ''high'', created_at = ''2025-08-05T00:00:00.000Z''\<rparr>,
            \<lparr>task_id = ''rec1'', name = ''Review the budget'', owner_id = Null,
              status = ''pending'', task_deadline = Null, source_meeting = Val [''m1''],
              team = ''p1'',
              description = ''Auto-generated from meeting action item: Review the budget'',
              task_priority = Val ''medium'', created_at = ''2025-08-05T00:00:00.000Z''\<rparr>]
   \<and> map fst (tasks (snd (createTasksFromActionItems good_env (Val [item_a, item_b])
         ''m1'' ''p1'' world0))) = [''rec0'', ''rec1'']"
  using createTasksFromActionItems_fields[where env = good_env and meetingId = "''m1''"
      and projectId = "''p1''" and items = "[item_a, item_b]" and w = world0]
  by (simp add: run_defs fixture_defs)

text \<open>
  C4 as stated fails for an empty meeting id and an empty priority string: the task has
  no source meeting, and its priority is \<open>medium\<close>, not the item's.
\<close>

theorem createTasksFromActionItems_empty_meeting_id_counterexample:
  "fst (createTasksFromActionItems good_env
          (Val [\<lparr>task = ''Review the budget'', assignee = Val ''Bob'', deadline = Undefined,
                  priority = Val '''', category = Undefined\<rparr>]) '''' ''p1'' world0) =
     Inr [\<lparr>task_id = ''rec0'', name = ''Review the budget'', owner_id = Val ''Bob'',
            status = ''pending'', task_deadline = Undefined, source_meeting = Undefined,
            team = ''p1'',
            description = ''Auto-generated from meeting action item: Review the budget'',
            task_priority = Val ''medium'', created_at = ''2025-08-05T00:00:00.000Z''\<rparr>]"
  by (simp add: run_defs fixture_defs)

text \<open>
  C7, as the code has it. For a missing, null or empty list of action items,
  \<open>createTasksFromActionItems\<close> returns the empty list without an error when Airtable is
  configured, and throws \<open>Failed to create tasks from action items\<close> (status code 500) when
  it is not, because the configuration check comes before the check of the list. In both
  cases no record is created and no Meetings row is touched.
\<close>

theorem createTasksFromActionItems_nothing_to_do:
  assumes "actionItems' = Undefined \<or> actionItems' = Null \<or> actionItems' = Val []"
  shows "fst (createTasksFromActionItems env actionItems' meetingId projectId w) =
           (if isAirtableConfigured env then Inr []
            else Inl (AppError ''Failed to create tasks from action items'' 500))
    \<and> tasks (snd (createTasksFromActionItems env actionItems' meetingId projectId w)) = tasks w
    \<and> meetings (snd (createTasksFromActionItems env actionItems' meetingId projectId w)) = meetings w"
  using assms by (auto simp: createTasksFromActionItems_def Let_def)

theorem createTasksFromActionItems_nothing_to_do_witness:
  "fst (createTasksFromActionItems good_env (Val []) ''m1'' ''p1'' world0) = Inr []
   \<and> fst (createTasksFromActionItems good_env Null ''m1'' ''p1'' world0) = Inr []
   \<and> fst (createTasksFromActionItems good_env Undefined ''m1'' ''p1'' world0) = Inr []
   \<and> tasks (snd (createTasksFromActionItems good_env (Val []) ''m1'' ''p1'' world0)) = []"
  using createTasksFromActionItems_nothing_to_do[where env = good_env and actionItems' = "Val []"
      and meetingId = "''m1''" and projectId = "''p1''" and w = world0]
    createTasksFromActionItems_nothing_to_do[where env = good_env and actionItems' = Null
      and meetingId = "''m1''" and projectId = "''p1''" and w = world0]
    createTasksFromActionItems_nothing_to_do[where env = good_env and actionItems' = Undefined
      and meetingId = "''m1''" and projectId = "''p1''" and w = world0]
  by (simp add: run_defs fixture_defs)

text \<open>
  C7 as stated fails when Airtable is not configured: the empty list raises the error.
\<close>

theorem createTasksFromActionItems_unconfigured_counterexample:
  "fst (createTasksFromActionItems (good_env\<lparr>AIRTABLE_API_KEY := Undefined\<rparr>) (Val [])
          ''m1'' ''p1'' world0)
     = Inl (AppError ''Failed to create tasks from action items'' 500)"
  by (simp add: run_defs fixture_defs)

subsection \<open>The pipeline\<close>

text \<open>
  C1, as the code has it. When transcription succeeds and minutes synthesis fails, the run
  writes no stage result: the transcript field of every row keeps the value it had before
  the run (absent for a newly uploaded meeting, so the text of stage 1 is not in the
  record), and nothing but the \<open>mom\<close> field changes. When the base performs the update,
  the \<open>mom\<close> field of the meeting holds \<open>AI processing failed: \<close> followed by the message
  of the error, which is the rate-limit message or \<open>Failed to generate Minutes of Meeting\<close>;
  otherwise it keeps its value too. No task is created.
\<close>

theorem minutes_failure_leaves_transcript_unwritten:
  assumes "fst (transcribeAudio env audio w) = Inr t"
    and "fst (generateMOM env (text_of t) title (upload_participants participants)
               (snd (transcribeAudio env audio w))) = Inl e"
    and "upload_background env audio title participants mid pid w = w'"
  shows "meeting_field w' rid TRANSCRIPT = meeting_field w rid TRANSCRIPT
    \<and> meeting_field w' mid MOM =
        (if meetings_update_error env mid [(MOM, Text (''AI processing failed: '' @ message e))] = None
            \<and> meetings w mid \<noteq> None
         then Some (Text (''AI processing failed: '' @ message e))
         else meeting_field w mid MOM)
    \<and> (\<forall>f. f \<noteq> MOM \<longrightarrow> meeting_field w' rid f = meeting_field w rid f)
    \<and> tasks w' = tasks w
    \<and> (message e = ''Failed to generate Minutes of Meeting'' \<or> message e = rate_limit_message)"
proof -
  let ?ps = "upload_participants participants"
  let ?w1 = "snd (processCompleteeMeeting env audio title ?ps w)"
  have pcm: "fst (processCompleteeMeeting env audio title ?ps w) = Inl e"
    using processCompleteeMeeting_minutes_failure[OF assms(1,2)] .
  have pa: "processAIAnalysis env audio title ?ps mid pid w = (Inl e, ?w1)"
    using processAIAnalysis_stage_failure[OF pcm] .
  have same: "meetings ?w1 = meetings w" "tasks ?w1 = tasks w"
    using processCompleteeMeeting_effect[of env audio title ?ps w "Inl e" ?w1] pcm
    by (metis prod.collapse)+
  have w': "w' = snd (meetingsTable_update env mid [(MOM, Text (failure_marker e))] ?w1)"
    using assms(3) pa by (simp add: upload_background_def)
  have mf: "meeting_field ?w1 r f = meeting_field w r f" for r f
    by (simp add: meeting_field_def same)
  have msg: "message e = ''Failed to generate Minutes of Meeting'' \<or> message e = rate_limit_message"
    using assms(2)
    by (auto simp: generateMOM_def chat_request_def mom_catch_def AppError_def Let_def
        split: if_splits sum.splits)
  have t: "tasks w' = tasks w"
    using meetingsTable_update_snd[of env mid _ ?w1] w' same by simp
  show ?thesis
    using msg t
    by (simp add: w' meetingsTable_update_field mf same failure_marker_def MOM_def TRANSCRIPT_def)
qed

theorem minutes_failure_leaves_transcript_unwritten_witness:
  "fst (transcribeAudio minutes_down_env ''bytes'' world_rerun) = Inr sample_reply
   \<and> fst (generateMOM minutes_down_env (text_of sample_reply) ''Weekly'' (upload_participants Undefined)
            (snd (transcribeAudio minutes_down_env ''bytes'' world_rerun)))
       = Inl (AppError ''Failed to generate Minutes of Meeting'' 500)
   \<and> meeting_field (upload_background minutes_down_env ''bytes'' ''Weekly'' Undefined ''m1'' ''p1'' world_rerun)
        ''m1'' TRANSCRIPT = Some (Text ''Earlier transcript'')
   \<and> meeting_field (upload_background minutes_down_env ''bytes'' ''Weekly'' Undefined ''m1'' ''p1'' world_rerun)
        ''m1'' MOM = Some (Text ''AI processing failed: Failed to generate Minutes of Meeting'')
   \<and> tasks (upload_background minutes_down_env ''bytes'' ''Weekly'' Undefined ''m1'' ''p1'' world_rerun) = []"
  using minutes_failure_leaves_transcript_unwritten[where env = minutes_down_env
      and audio = "''bytes''" and w = world_rerun and t = sample_reply and title = "''Weekly''"
      and participants = Undefined and mid = "''m1''" and pid = "''p1''" and rid = "''m1''"
      and e = "AppError ''Failed to generate Minutes of Meeting'' 500"
      and w' = "upload_background minutes_down_env ''bytes'' ''Weekly'' Undefined ''m1'' ''p1'' world_rerun"]
  by (simp add: run_defs fixture_defs)

text \<open>
  C1 as stated fails: on a newly uploaded meeting, with transcription succeeding and the
  chat provider down, the record read after the run has no transcript; only the failure
  text in \<open>mom\<close>.
\<close>

theorem minutes_failure_transcript_not_persisted_counterexample:
  "fst (transcribeAudio minutes_down_env ''bytes'' world0) = Inr sample_reply
   \<and> fst (generateMOM minutes_down_env (text_of sample_reply) ''Weekly'' []
            (snd (transcribeAudio minutes_down_env ''bytes'' world0)))
       = Inl (AppError ''Failed to generate Minutes of Meeting'' 500)
   \<and> meeting_field (upload_background minutes_down_env ''bytes'' ''Weekly'' Undefined ''m1'' ''p1'' world0)
        ''m1'' TRANSCRIPT = None
   \<and> meeting_field (upload_background minutes_down_env ''bytes'' ''Weekly'' Undefined ''m1'' ''p1'' world0)
        ''m1'' MOM = Some (Text ''AI processing failed: Failed to generate Minutes of Meeting'')"
  by (simp add: run_defs fixture_defs)

text \<open>
  C2, as the code has it. Every run starts with the transcribe stage, and the stages are
  called in the order transcribe, minutes, extract, summarize, materialize (a run stops at
  any of them). No row but the meeting's is updated, and a performed update is one of
  three: the single update that writes the transcript, the minutes and the summary the
  stages returned, which comes directly after the calls of the four AI stages; the update
  that writes the ids of the tasks the run has created, one per action item, which comes
  directly after the call of the materializer and ends the run; or the failure text
  written to \<open>mom\<close>, which ends a run that failed. A run in which \<open>processAIAnalysis\<close>
  returns has performed the first of these and, when there is an action item, the second,
  and nothing else. And the run does so, leaving the transcript, the minutes, the summary
  and the task ids in the record and one task per action item in the Tasks table, whenever
  the four AI stages succeed, Airtable is configured, the meeting's row exists and the
  base accepts the writes.
\<close>

theorem stages_in_order_one_write_after_summary:
  assumes ub: "upload_background env audio title participants mid pid w = w'"
  shows "prefix (calls (new_events w w')) stage_order
    \<and> (\<exists>rest. new_events w w' = Call Transcribe # rest)
    \<and> (\<forall>pre rid payload post.
         new_events w w' = pre @ Updated rid payload # post \<longrightarrow>
           rid = mid \<and>
           ((\<exists>res. fst (processCompleteeMeeting env audio title (upload_participants participants) w)
                     = Inr res
                  \<and> pre = stage_calls \<and> payload = results_payload res)
            \<or> (\<exists>res. fst (processCompleteeMeeting env audio title (upload_participants participants) w)
                       = Inr res
                  \<and> actionItems res \<noteq> []
                  \<and> pre = stage_calls @ [Updated mid (results_payload res), Call Materialize]
                  \<and> payload = [(ACTION_POINTS, Links (created_ids w w'))]
                  \<and> length (created_ids w w') = length (actionItems res)
                  \<and> post = [])
            \<or> (\<exists>e. fst (processAIAnalysis env audio title (upload_participants participants)
                            mid pid w) = Inl e
                  \<and> payload = [(MOM, Text (''AI processing failed: '' @ message e))]
                  \<and> post = [])))
    \<and> (\<forall>u. fst (processAIAnalysis env audio title (upload_participants participants) mid pid w)
               = Inr u \<longrightarrow>
          (\<exists>res. fst (processCompleteeMeeting env audio title (upload_participants participants) w)
                   = Inr res
             \<and> new_events w w' =
                 stage_calls @ Updated mid (results_payload res)
                   # (if actionItems res = [] then []
                      else [Call Materialize,
                            Updated mid [(ACTION_POINTS, Links (created_ids w w'))]])
             \<and> length (created_ids w w') = length (actionItems res)))
    \<and> (\<forall>res. fst (processCompleteeMeeting env audio title (upload_participants participants) w)
                 = Inr res
             \<and> isAirtableConfigured env
             \<and> meetings w mid \<noteq> None
             \<and> meetings_update_error env mid (results_payload res) = None
             \<and> (actionItems res = []
                \<or> tasks_create_error env (map (task_fields_of env mid pid) (actionItems res)) = None
                  \<and> meetings_update_error env mid
                       [(ACTION_POINTS, Links (new_ids env w (length (actionItems res))))] = None)
           \<longrightarrow>
             new_events w w' =
               stage_calls @ Updated mid (results_payload res)
                 # (if actionItems res = [] then []
                    else [Call Materialize,
                          Updated mid [(ACTION_POINTS, Links (new_ids env w (length (actionItems res))))]])
             \<and> meeting_field w' mid TRANSCRIPT = Some (Text (text_of (transcription res)))
             \<and> meeting_field w' mid MOM = Some (Text (mom res))
             \<and> meeting_field w' mid SUMMARY = Some (Text (emailSummary res))
             \<and> (if actionItems res = []
                 then tasks w' = tasks w
                      \<and> meeting_field w' mid ACTION_POINTS = meeting_field w mid ACTION_POINTS
                 else tasks w' = tasks w @ zip (new_ids env w (length (actionItems res)))
                                               (map (task_fields_of env mid pid) (actionItems res))
                      \<and> meeting_field w' mid ACTION_POINTS =
                          Some (Links (new_ids env w (length (actionItems res))))))"
proof -
  let ?ps = "upload_participants participants"
  let ?pcm = "processCompleteeMeeting env audio title ?ps w"
  let ?pa = "processAIAnalysis env audio title ?ps mid pid w"
  let ?M = "\<lambda>e. [(MOM, Text (''AI processing failed: '' @ message e))]"
  obtain r w1 where pa: "?pa = (r, w1)" by fastforce
  then have fpa: "fst ?pa = r" by simp
  have finished: "w' = w1" if "r = Inr u" for u
    using upload_background_events(1)[OF pa] ub that by simp
  have failed: "tasks w' = tasks w1
      \<and> (trace w' = trace w1 @ [Updated mid (?M e)] \<or> trace w' = trace w1 @ [UpdateFailed mid (?M e)])"
    if "r = Inl e" for e
    using upload_background_events[OF pa] ub that
    by (auto simp: failure_marker_def meetingsTable_update_tasks)
  show ?thesis
  proof (cases "fst ?pcm")
    case (Inl e)
    from processAIAnalysis_stage_failure_events[OF Inl pa]
    have r: "r = Inl e" and k: "tasks w1 = tasks w"
      and sh: "trace w1 = trace w @ [Call Transcribe, Failed Transcribe]
       \<or> trace w1 = trace w @ [Call Transcribe, Call Minutes, Failed Minutes]
       \<or> trace w1 = trace w @ [Call Transcribe, Call Minutes, Call Extract, Failed Extract]
       \<or> trace w1 = trace w @ [Call Transcribe, Call Minutes, Call Extract, Call Summarize,
                             Failed Summarize]"
      by simp_all
    from failed[OF r] sh show ?thesis
      unfolding fpa r Inl new_events_def
      by (elim disjE conjE)
         (auto simp: Cons_eq_append_conv append_eq_Cons_conv stage_order_def stage_calls_def)
  next
    case (Inr res)
    then have pc: "?pcm = (Inr res, snd ?pcm)" by (metis prod.collapse)
    note cases = processAIAnalysis_after_stages[OF pc pa]
    have sufficient: "r = Inr ()
        \<and> trace w1 = trace w @ stage_calls @ Updated mid (results_payload res)
            # (if actionItems res = [] then []
               else [Call Materialize,
                     Updated mid [(ACTION_POINTS, Links (new_ids env w (length (actionItems res))))]])
        \<and> meeting_field w1 mid TRANSCRIPT = Some (Text (text_of (transcription res)))
        \<and> meeting_field w1 mid MOM = Some (Text (mom res))
        \<and> meeting_field w1 mid SUMMARY = Some (Text (emailSummary res))
        \<and> (if actionItems res = []
            then tasks w1 = tasks w
                 \<and> meeting_field w1 mid ACTION_POINTS = meeting_field w mid ACTION_POINTS
            else tasks w1 = tasks w @ zip (new_ids env w (length (actionItems res)))
                                          (map (task_fields_of env mid pid) (actionItems res))
                 \<and> meeting_field w1 mid ACTION_POINTS =
                     Some (Links (new_ids env w (length (actionItems res)))))"
      if "isAirtableConfigured env" "meetings w mid \<noteq> None"
        "meetings_update_error env mid (results_payload res) = None"
        "actionItems res = []
          \<or> tasks_create_error env (map (task_fields_of env mid pid) (actionItems res)) = None
            \<and> meetings_update_error env mid
                 [(ACTION_POINTS, Links (new_ids env w (length (actionItems res))))] = None"
      using processAIAnalysis_success[OF pc that pa] .
    have last: "new_events w w' =
               stage_calls @ Updated mid (results_payload res)
                 # (if actionItems res = [] then []
                    else [Call Materialize,
                          Updated mid [(ACTION_POINTS, Links (new_ids env w (length (actionItems res))))]])
             \<and> meeting_field w' mid TRANSCRIPT = Some (Text (text_of (transcription res)))
             \<and> meeting_field w' mid MOM = Some (Text (mom res))
             \<and> meeting_field w' mid SUMMARY = Some (Text (emailSummary res))
             \<and> (if actionItems res = []
                 then tasks w' = tasks w
                      \<and> meeting_field w' mid ACTION_POINTS = meeting_field w mid ACTION_POINTS
                 else tasks w' = tasks w @ zip (new_ids env w (length (actionItems res)))
                                               (map (task_fields_of env mid pid) (actionItems res))
                      \<and> meeting_field w' mid ACTION_POINTS =
                          Some (Links (new_ids env w (length (actionItems res)))))"
      if "isAirtableConfigured env" "meetings w mid \<noteq> None"
        "meetings_update_error env mid (results_payload res) = None"
        "actionItems res = []
          \<or> tasks_create_error env (map (task_fields_of env mid pid) (actionItems res)) = None
            \<and> meetings_update_error env mid
                 [(ACTION_POINTS, Links (new_ids env w (length (actionItems res))))] = None"
    proof -
      from sufficient[OF that] have "r = Inr ()" by simp
      from finished[OF this] sufficient[OF that] show ?thesis
        by (simp add: new_events_def cong: if_cong)
    qed
    have first: "prefix (calls (new_events w w')) stage_order
      \<and> (\<exists>rest. new_events w w' = Call Transcribe # rest)
      \<and> (\<forall>pre rid payload post.
         new_events w w' = pre @ Updated rid payload # post \<longrightarrow>
           rid = mid \<and>
           (pre = stage_calls \<and> payload = results_payload res
            \<or> actionItems res \<noteq> []
                  \<and> pre = stage_calls @ [Updated mid (results_payload res), Call Materialize]
                  \<and> payload = [(ACTION_POINTS, Links (created_ids w w'))]
                  \<and> length (created_ids w w') = length (actionItems res)
                  \<and> post = []
            \<or> (\<exists>e. r = Inl e
                  \<and> payload = [(MOM, Text (''AI processing failed: '' @ message e))]
                  \<and> post = [])))
      \<and> (\<forall>u. r = Inr u \<longrightarrow>
             new_events w w' =
                 stage_calls @ Updated mid (results_payload res)
                   # (if actionItems res = [] then []
                      else [Call Materialize,
                            Updated mid [(ACTION_POINTS, Links (created_ids w w'))]])
             \<and> length (created_ids w w') = length (actionItems res))"
    proof (cases r)
      case (Inl e)
      have cr: "created_ids w w' = created_ids w w1"
        using failed[OF Inl] by (simp add: created_ids_def)
      from failed[OF Inl] cases show ?thesis
        unfolding Inl new_events_def cr
        by (elim disjE conjE)
           (auto simp: Cons_eq_append_conv append_eq_Cons_conv stage_order_def stage_calls_def
              results_payload_def)
    next
      case (Inr u)
      from finished[OF Inr] cases show ?thesis
        unfolding Inr new_events_def
        by (elim disjE conjE)
           (auto simp: Cons_eq_append_conv append_eq_Cons_conv stage_order_def stage_calls_def
              results_payload_def created_ids_def)
    qed
    have ex: "(\<exists>res'. Inr res = (Inr res' :: js_error + ai_results) \<and> P res') = P res" for P
      by auto
    have all: "(\<forall>res'. Inr res = (Inr res' :: js_error + ai_results) \<and> P res' \<longrightarrow> Q res')
        = (P res \<longrightarrow> Q res)" for P Q
      by auto
    show ?thesis unfolding fpa Inr ex all
      by (intro conjI first[THEN conjunct1] first[THEN conjunct2, THEN conjunct1]
          first[THEN conjunct2, THEN conjunct2, THEN conjunct1]
          first[THEN conjunct2, THEN conjunct2, THEN conjunct2] impI last; (elim conjE)?; assumption?)
  qed
qed

theorem stages_in_order_one_write_after_summary_witness:
  "fst (processCompleteeMeeting good_env ''bytes'' ''Weekly'' (upload_participants Undefined) world0)
     = Inr \<lparr>transcription = sample_reply, mom = ''MINUTES'', actionItems = [item_a, item_b],
            emailSummary = ''SUMMARY'', processingComplete = True,
            processedAt = ''2025-08-05T00:00:00.000Z''\<rparr>
   \<and> isAirtableConfigured good_env
   \<and> meeting_field world0 ''m1'' ''title'' = Some (Text ''Weekly'')
   \<and> new_events world0 (upload_background good_env ''bytes'' ''Weekly'' Undefined ''m1'' ''p1'' world0) =
       [Call Transcribe, Call Minutes, Call Extract, Call Summarize,
        Updated ''m1'' [(''transcript'', Text ''Alice will send the report by Friday. Bob to review the budget.''),
                        (''mom'', Text ''MINUTES''), (''summary'', Text ''SUMMARY'')],
        Call Materialize,
        Updated ''m1'' [(''action_points'', Links [''rec0'', ''rec1''])]]
   \<and> meeting_field (upload_background good_env ''bytes'' ''Weekly'' Undefined ''m1'' ''p1'' world0)
        ''m1'' TRANSCRIPT
       = Some (Text ''Alice will send the report by Friday. Bob to review the budget.'')
   \<and> meeting_field (upload_background good_env ''bytes'' ''Weekly'' Undefined ''m1'' ''p1'' world0)
        ''m1'' MOM = Some (Text ''MINUTES'')
   \<and> meeting_field (upload_background good_env ''bytes'' ''Weekly'' Undefined ''m1'' ''p1'' world0)
        ''m1'' SUMMARY = Some (Text ''SUMMARY'')
   \<and> meeting_field (upload_background good_env ''bytes'' ''Weekly'' Undefined ''m1'' ''p1'' world0)
        ''m1'' ACTION_POINTS = Some (Links [''rec0'', ''rec1''])
   \<and> map fst (tasks (upload_background good_env ''bytes'' ''Weekly'' Undefined ''m1'' ''p1'' world0))
       = [''rec0'', ''rec1'']"
proof -
  let ?W = "upload_background good_env ''bytes'' ''Weekly'' Undefined ''m1'' ''p1'' world0"
  let ?res = "\<lparr>transcription = sample_reply, mom = ''MINUTES'', actionItems = [item_a, item_b],
            emailSummary = ''SUMMARY'', processingComplete = True,
            processedAt = ''2025-08-05T00:00:00.000Z''\<rparr>"
  have h: "fst (processCompleteeMeeting good_env ''bytes'' ''Weekly'' (upload_participants Undefined) world0)
       = Inr ?res
     \<and> isAirtableConfigured good_env
     \<and> meetings world0 ''m1'' \<noteq> None
     \<and> meetings_update_error good_env ''m1'' (results_payload ?res) = None
     \<and> (actionItems ?res = []
        \<or> tasks_create_error good_env (map (task_fields_of good_env ''m1'' ''p1'') (actionItems ?res)) = None
          \<and> meetings_update_error good_env ''m1''
               [(ACTION_POINTS, Links (new_ids good_env world0 (length (actionItems ?res))))] = None)"
    by (simp add: run_defs fixture_defs)
  note run = stages_in_order_one_write_after_summary[where env = good_env
      and audio = "''bytes''" and w = world0 and title = "''Weekly''"
      and participants = Undefined and mid = "''m1''" and pid = "''p1''", OF refl]
  note written = run[THEN conjunct2, THEN conjunct2, THEN conjunct2, THEN conjunct2,
      rule_format, OF h]
  have ids: "new_ids good_env world0 (Suc (Suc 0)) = [''rec0'', ''rec1'']"
    and none: "tasks world0 = []"
    by (simp_all add: new_ids_def good_env_def world0_def upt_conv_Cons)
  from written have "new_events world0 ?W =
       [Call Transcribe, Call Minutes, Call Extract, Call Summarize,
        Updated ''m1'' [(''transcript'', Text ''Alice will send the report by Friday. Bob to review the budget.''),
                        (''mom'', Text ''MINUTES''), (''summary'', Text ''SUMMARY'')],
        Call Materialize,
        Updated ''m1'' [(''action_points'', Links [''rec0'', ''rec1''])]]
   \<and> meeting_field ?W ''m1'' TRANSCRIPT
       = Some (Text ''Alice will send the report by Friday. Bob to review the budget.'')
   \<and> meeting_field ?W ''m1'' MOM = Some (Text ''MINUTES'')
   \<and> meeting_field ?W ''m1'' SUMMARY = Some (Text ''SUMMARY'')
   \<and> meeting_field ?W ''m1'' ACTION_POINTS = Some (Links [''rec0'', ''rec1''])
   \<and> map fst (tasks ?W) = [''rec0'', ''rec1'']"
    by (simp add: ids none stage_calls_def results_payload_def sample_reply_def
        TRANSCRIPT_def MOM_def SUMMARY_def ACTION_POINTS_def)
  moreover have "meeting_field world0 ''m1'' ''title'' = Some (Text ''Weekly'')"
    by (simp add: meeting_field_def world0_def)
  ultimately show ?thesis using h by simp
qed

text \<open>
  C2 as stated fails: in the complete sample run, minutes synthesis, extraction and summary
  are all called before the first update of the record; after stage 1 the transcript
  field is still absent, and after stage 2 the \<open>mom\<close> field is.
\<close>

theorem transcript_not_written_before_minutes_counterexample:
  "new_events world0 (upload_background good_env ''bytes'' ''Weekly'' (Val ''Ann,Bob'') ''m1'' ''p1'' world0) =
     [Call Transcribe, Call Minutes, Call Extract, Call Summarize,
      Updated ''m1'' [(''transcript'', Text ''Alice will send the report by Friday. Bob to review the budget.''),
                      (''mom'', Text ''MINUTES''), (''summary'', Text ''SUMMARY'')],
      Call Materialize,
      Updated ''m1'' [(''action_points'', Links [''rec0'', ''rec1''])]]
   \<and> fst (transcribeAudio good_env ''bytes'' world0) = Inr sample_reply
   \<and> meeting_field (snd (transcribeAudio good_env ''bytes'' world0)) ''m1'' TRANSCRIPT = None
   \<and> meeting_field (snd (generateMOM good_env (text_of sample_reply) ''Weekly'' [''Ann'', ''Bob'']
        (snd (transcribeAudio good_env ''bytes'' world0)))) ''m1'' MOM = None"
  by (simp add: run_defs fixture_defs)

text \<open>
  C3, as the code has it. When the \<open>catch\<close> block of a stage runs, or an update of the
  record is refused, no stage is called after it and \<open>processAIAnalysis\<close> throws. Whenever
  \<open>processAIAnalysis\<close> throws an error, the run ends with one attempt to write
  \<open>AI processing failed: \<close> followed by the error's message into the \<open>mom\<close> field of the
  meeting, and changes no task. When the base performs that update, the record carries
  the text; when the base refuses it or has no such row, the Meetings table is left as it
  was.
\<close>

theorem failed_run_stops_and_attempts_marker:
  assumes "processAIAnalysis env audio title (upload_participants participants) mid pid w = (r, w1)"
    and "upload_background env audio title participants mid pid w = w'"
  shows "(\<forall>pre s post. new_events w w' = pre @ Failed s # post \<longrightarrow> isl r \<and> calls post = [])
    \<and> (\<forall>pre rid payload post.
          new_events w w' = pre @ UpdateFailed rid payload # post \<longrightarrow> isl r \<and> calls post = [])
    \<and> (\<forall>e. r = Inl e \<longrightarrow>
          w' = snd (meetingsTable_update env mid
                     [(MOM, Text (''AI processing failed: '' @ message e))] w1)
          \<and> tasks w' = tasks w1
          \<and> (if meetings_update_error env mid
                   [(MOM, Text (''AI processing failed: '' @ message e))] = None
                 \<and> meetings w1 mid \<noteq> None
              then new_events w1 w' =
                     [Updated mid [(MOM, Text (''AI processing failed: '' @ message e))]]
                   \<and> meeting_field w' mid MOM =
                       Some (Text (''AI processing failed: '' @ message e))
              else new_events w1 w' =
                     [UpdateFailed mid [(MOM, Text (''AI processing failed: '' @ message e))]]
                   \<and> meetings w' = meetings w1))"
proof -
  from processAIAnalysis_trace[OF assms(1)] obtain evs where
    tr: "trace w1 = trace w @ evs" and
    sh: "if isl r then failed_analysis_events mid evs else completed_analysis_events mid evs"
    by blast
  have stop: "isl r \<and> calls post = []"
    if split: "new_events w w' = pre @ x # post"
      and x: "(\<exists>s. x = Failed s) \<or> (\<exists>rid payload. x = UpdateFailed rid payload)"
    for pre x post
  proof -
    have "isl r"
    proof (rule ccontr)
      assume "\<not> isl r"
      then obtain u where u: "r = Inr u" by (cases r) auto
      with upload_background_events(2)[OF assms(1)] assms(2) tr have ne: "new_events w w' = evs"
        by (simp add: new_events_def)
      from sh u split x show False unfolding ne completed_analysis_events_def
        by (auto simp: Cons_eq_append_conv append_eq_Cons_conv)
    qed
    then obtain e where e: "r = Inl e" by (cases r) auto
    let ?M = "[(MOM, Text (failure_marker e))]"
    from upload_background_events(2)[OF assms(1)] assms(2) tr e
    have ne: "new_events w w' = evs @ [Updated mid ?M]
              \<or> new_events w w' = evs @ [UpdateFailed mid ?M]"
      by (auto simp: new_events_def)
    from sh e have sh': "failed_analysis_events mid evs" by simp
    from ne have "calls post = []"
    proof
      assume n: "new_events w w' = evs @ [Updated mid ?M]"
      from sh' split x show ?thesis unfolding n failed_analysis_events_def
        by (elim disjE exE conjE) (auto simp: Cons_eq_append_conv append_eq_Cons_conv)
    next
      assume n: "new_events w w' = evs @ [UpdateFailed mid ?M]"
      from sh' split x show ?thesis unfolding n failed_analysis_events_def
        by (elim disjE exE conjE) (auto simp: Cons_eq_append_conv append_eq_Cons_conv)
    qed
    with \<open>isl r\<close> show ?thesis by simp
  qed
  have marker: "w' = snd (meetingsTable_update env mid
                     [(MOM, Text (''AI processing failed: '' @ message e))] w1)
          \<and> tasks w' = tasks w1
          \<and> (if meetings_update_error env mid
                   [(MOM, Text (''AI processing failed: '' @ message e))] = None
                 \<and> meetings w1 mid \<noteq> None
              then new_events w1 w' =
                     [Updated mid [(MOM, Text (''AI processing failed: '' @ message e))]]
                   \<and> meeting_field w' mid MOM =
                       Some (Text (''AI processing failed: '' @ message e))
              else new_events w1 w' =
                     [UpdateFailed mid [(MOM, Text (''AI processing failed: '' @ message e))]]
                   \<and> meetings w' = meetings w1)"
    if e: "r = Inl e" for e
  proof -
    let ?M = "[(MOM, Text (''AI processing failed: '' @ message e))]"
    from upload_background_events(1)[OF assms(1)] assms(2) e
    have w': "w' = snd (meetingsTable_update env mid ?M w1)"
      by (simp add: failure_marker_def)
    moreover have "tasks w' = tasks w1"
      unfolding w' by (rule meetingsTable_update_tasks)
    moreover have "if meetings_update_error env mid ?M = None \<and> meetings w1 mid \<noteq> None
        then new_events w1 w' = [Updated mid ?M]
             \<and> meeting_field w' mid MOM = Some (Text (''AI processing failed: '' @ message e))
        else new_events w1 w' = [UpdateFailed mid ?M] \<and> meetings w' = meetings w1"
      unfolding w'
      by (auto simp: meetingsTable_update_def new_events_def meeting_field_def
          split: option.splits)
    ultimately show ?thesis by blast
  qed
  from stop marker show ?thesis by blast
qed

theorem failed_run_stops_and_attempts_marker_witness:
  "processAIAnalysis (good_env\<lparr>whisper_create := \<lambda>n f. Inl provider_down\<rparr>) ''bytes'' ''Weekly''
       (upload_participants Undefined) ''m1'' ''p1'' world0
     = (Inl (AppError ''Failed to transcribe audio'' 500),
        world0\<lparr>whisper_requests := [''bytes''], trace := [Call Transcribe, Failed Transcribe]\<rparr>)
   \<and> new_events world0 (upload_background (good_env\<lparr>whisper_create := \<lambda>n f. Inl provider_down\<rparr>)
         ''bytes'' ''Weekly'' Undefined ''m1'' ''p1'' world0) =
       [Call Transcribe, Failed Transcribe,
        Updated ''m1'' [(''mom'', Text ''AI processing failed: Failed to transcribe audio'')]]
   \<and> meeting_field (upload_background (good_env\<lparr>whisper_create := \<lambda>n f. Inl provider_down\<rparr>)
         ''bytes'' ''Weekly'' Undefined ''m1'' ''p1'' world0) ''m1'' MOM
       = Some (Text ''AI processing failed: Failed to transcribe audio'')"
  using failed_run_stops_and_attempts_marker[where
      env = "good_env\<lparr>whisper_create := \<lambda>n f. Inl provider_down\<rparr>"
      and audio = "''bytes''" and w = world0 and title = "''Weekly''"
      and participants = Undefined and mid = "''m1''" and pid = "''p1''"
      and r = "Inl (AppError ''Failed to transcribe audio'' 500)"
      and ?w1.0 = "world0\<lparr>whisper_requests := [''bytes''], trace := [Call Transcribe, Failed Transcribe]\<rparr>"
      and w' = "upload_background (good_env\<lparr>whisper_create := \<lambda>n f. Inl provider_down\<rparr>)
         ''bytes'' ''Weekly'' Undefined ''m1'' ''p1'' world0"]
  by (simp add: run_defs fixture_defs)

text \<open>
  C3 as stated fails: with the speech provider and the base both down, the run fails at
  stage 1, the update that would write the failure text is refused, and the Meetings
  table after the run is the table before it.
\<close>

theorem failed_run_without_marker_counterexample:
  "fst (processAIAnalysis store_down_env ''bytes'' ''Weekly'' [] ''m1'' ''p1'' world0)
     = Inl (AppError ''Failed to transcribe audio'' 500)
   \<and> new_events world0 (upload_background store_down_env ''bytes'' ''Weekly'' Undefined ''m1'' ''p1'' world0) =
       [Call Transcribe, Failed Transcribe,
        UpdateFailed ''m1'' [(''mom'', Text ''AI processing failed: Failed to transcribe audio'')]]
   \<and> meetings (upload_background store_down_env ''bytes'' ''Weekly'' Undefined ''m1'' ''p1'' world0)
       = meetings world0
   \<and> meeting_field (upload_background store_down_env ''bytes'' ''Weekly'' Undefined ''m1'' ''p1'' world0)
        ''m1'' MOM = None"
  by (simp add: run_defs fixture_defs)




end
